theory Spec2Isabelle
  imports Main "HOL-Library.Sublist"
begin

section \<open>Values of the program\<close>

text \<open>
  The script \<^verbatim>\<open>deploy_application_for_querying_regulatory_docs.py\<close> reads a JSON
  configuration, validates it, issues four calls to a remote client and writes the four
  identifiers it got back to a file. Everything it handles is a value that
  \<^verbatim>\<open>json.load\<close> can produce or that a response dictionary can hold.

  A dictionary is an association list in insertion order, read with \<open>map_of\<close>; the
  numbers are never inspected by the program, so a float is carried as its literal text.
\<close>

datatype json =
    JNull
  | JBool bool
  | JInt int
  | JFloat string
  | JStr string
  | JList "json list"
  | JObj "(string \<times> json) list"

text \<open>
  Exceptions, all of them subclasses of \<^verbatim>\<open>Exception\<close>. \<open>ValueErrorF p e\<close> and
  \<open>ExceptionF p e\<close> are \<^verbatim>\<open>ValueError(f"{p}{e}")\<close> and
  \<^verbatim>\<open>Exception(f"{p}{e}")\<close>: the message is the text \<open>p\<close> followed by
  \<^verbatim>\<open>str(e)\<close>. The interpreter's wording of a \<^verbatim>\<open>TypeError\<close> or an
  \<^verbatim>\<open>AttributeError\<close> differs between versions and is not modelled.
  \<open>ClientError\<close> stands for whatever the remote client raises.
\<close>

datatype py_exn =
    FileNotFoundError string
  | JSONDecodeError string
  | ValueError string
  | ValueErrorF string py_exn
  | ExceptionF string py_exn
  | KeyError string
  | TypeError
  | AttributeError
  | ClientError string

subsection \<open>Operations of the language on these values\<close>

text \<open>Evaluation in sequence of two expressions that may raise.\<close>

definition after :: "py_exn + 'a \<Rightarrow> ('a \<Rightarrow> py_exn + 'b) \<Rightarrow> py_exn + 'b" where
  "after r f = (case r of Inl e \<Rightarrow> Inl e | Inr v \<Rightarrow> f v)"

text \<open>\<^verbatim>\<open>obj[key]\<close> with a string key: only a dictionary can be subscripted so.\<close>

fun getitem :: "json \<Rightarrow> string \<Rightarrow> py_exn + json" where
  "getitem (JObj kvs) k = (case map_of kvs k of None \<Rightarrow> Inl (KeyError k) | Some v \<Rightarrow> Inr v)"
| "getitem _ k = Inl TypeError"

text \<open>\<^verbatim>\<open>obj[k1][k2]...\<close>, evaluated from the left; the first failing subscript raises.\<close>

fun getpath :: "json \<Rightarrow> string list \<Rightarrow> py_exn + json" where
  "getpath v [] = Inr v"
| "getpath v (k # ks) = after (getitem v k) (\<lambda>u. getpath u ks)"

text \<open>\<^verbatim>\<open>s.startswith(p)\<close> and \<^verbatim>\<open>p in s\<close> on two strings.\<close>

fun str_startswith :: "string \<Rightarrow> string \<Rightarrow> bool" where
  "str_startswith s [] = True"
| "str_startswith [] (c # p) = False"
| "str_startswith (d # s) (c # p) = (d = c \<and> str_startswith s p)"

fun str_contains :: "string \<Rightarrow> string \<Rightarrow> bool" where
  "str_contains p [] = (p = [])"
| "str_contains p (c # s) = (str_startswith (c # s) p \<or> str_contains p s)"

text \<open>
  \<^verbatim>\<open>needle in container\<close> with a string needle: a substring test on a string, a
  membership test on a list (only an equal string is equal to a string), a key test on
  a dictionary, and a \<^verbatim>\<open>TypeError\<close> on \<^verbatim>\<open>None\<close>, a boolean or a number.
\<close>

fun py_in :: "string \<Rightarrow> json \<Rightarrow> py_exn + bool" where
  "py_in s (JStr t) = Inr (str_contains s t)"
| "py_in s (JList xs) = Inr (JStr s \<in> set xs)"
| "py_in s (JObj kvs) = Inr (s \<in> fst ` set kvs)"
| "py_in s _ = Inl TypeError"

text \<open>\<^verbatim>\<open>v.startswith(p)\<close>: only a string has the method.\<close>

fun startswith :: "json \<Rightarrow> string \<Rightarrow> py_exn + bool" where
  "startswith (JStr t) p = Inr (str_startswith t p)"
| "startswith _ p = Inl AttributeError"

section \<open>The world the script runs in\<close>

text \<open>
  A request is one call on the client: the operation and its keyword arguments. The
  remote service answers a request with a response dictionary or raises; its answer may
  depend on the requests it has seen before.
\<close>

datatype operation = CreateApplication | CreateIndex | CreateDataSource | StartDataSourceSyncJob

datatype request = Request operation "(string \<times> json) list"

type_synonym remote = "request list \<Rightarrow> request \<Rightarrow> py_exn + json"

text \<open>
  A printed line: a fixed text, \<^verbatim>\<open>print(f"{p}{v}")\<close> for a value \<open>v\<close>, or
  \<^verbatim>\<open>print(f"{p}{str(e)}")\<close> for an exception \<open>e\<close>.
\<close>

datatype out = Line string | LineVal string json | LineExn string py_exn

text \<open>
  The state: the regular text files by path, the lines printed so far, and the calls
  issued on the remote client so far (a call that raises has been issued all the same).
\<close>

record world =
  files :: "string \<rightharpoonup> string"
  stdout :: "out list"
  calls :: "request list"

text \<open>
  What the script imports and does not define: the JSON parser (\<open>Inl\<close> the message of
  its \<^verbatim>\<open>JSONDecodeError\<close>), the serialiser \<^verbatim>\<open>json.dump(_, _, indent=2)\<close>, and
  \<^verbatim>\<open>boto3.client('qbusiness', region_name=_)\<close>.
\<close>

record platform =
  json_loads :: "string \<Rightarrow> string + json"
  json_dumps :: "json \<Rightarrow> string"
  boto3_client :: "json \<Rightarrow> py_exn + remote"

subsection \<open>Statements: state passing with exceptions\<close>

type_synonym 'a prog = "world \<Rightarrow> (py_exn + 'a) \<times> world"

definition ret :: "'a \<Rightarrow> 'a prog" where
  "ret v w = (Inr v, w)"

definition raise_exn :: "py_exn \<Rightarrow> 'a prog" where
  "raise_exn e w = (Inl e, w)"

definition eval_expr :: "py_exn + 'a \<Rightarrow> 'a prog" where
  "eval_expr r w = (r, w)"

definition andthen :: "'a prog \<Rightarrow> ('a \<Rightarrow> 'b prog) \<Rightarrow> 'b prog" where
  "andthen m f w = (case m w of (Inl e, w') \<Rightarrow> (Inl e, w') | (Inr v, w') \<Rightarrow> f v w')"

definition try_except :: "'a prog \<Rightarrow> (py_exn \<Rightarrow> 'a prog) \<Rightarrow> 'a prog" where
  "try_except m h w = (case m w of (Inl e, w') \<Rightarrow> h e w' | (Inr v, w') \<Rightarrow> (Inr v, w'))"

definition print :: "out \<Rightarrow> unit prog" where
  "print l w = (Inr (), w\<lparr>stdout := stdout w @ [l]\<rparr>)"

fun print_all :: "out list \<Rightarrow> unit prog" where
  "print_all [] = ret ()"
| "print_all (l # ls) = andthen (print l) (\<lambda>_. print_all ls)"

text \<open>One call on the client: it is logged, then the service answers.\<close>

definition invoke :: "remote \<Rightarrow> operation \<Rightarrow> (string \<times> json) list \<Rightarrow> json prog" where
  "invoke svc opn params w =
     (svc (calls w) (Request opn params), w\<lparr>calls := calls w @ [Request opn params]\<rparr>)"

text \<open>
  A dictionary display \<^verbatim>\<open>{k1: e1, k2: e2, ...}\<close> whose values are subscripts of one
  configuration section: the values are evaluated in order, the first failure raises.
\<close>

fun copy_fields :: "json \<Rightarrow> string list \<Rightarrow> py_exn + (string \<times> json) list" where
  "copy_fields sec [] = Inr []"
| "copy_fields sec (k # ks) =
     after (getitem sec k) (\<lambda>v.
     after (copy_fields sec ks) (\<lambda>kvs.
     Inr ((k, v) # kvs)))"

section \<open>The class AmazonQBusiness\<close>

record AmazonQBusiness =
  config :: json
  qbusiness :: remote

subsection \<open>load_config\<close>

definition required_sections :: "string list" where
  "required_sections = [''aws'', ''application'', ''index'', ''dataSource'']"

text \<open>
  The loop over the required sections: the first section that is not \<^verbatim>\<open>in\<close> the
  document raises; the test itself raises on a document that is no container.
\<close>

fun check_sections :: "json \<Rightarrow> string list \<Rightarrow> py_exn + unit" where
  "check_sections cfg [] = Inr ()"
| "check_sections cfg (s # ss) =
     after (py_in s cfg) (\<lambda>present.
     if \<not> present then Inl (ValueError (''Missing required configuration section: '' @ s))
     else check_sections cfg ss)"

text \<open>The body of the \<^verbatim>\<open>try\<close> of \<open>load_config\<close>.\<close>

definition load_config_body :: "platform \<Rightarrow> string \<Rightarrow> json prog" where
  "load_config_body pf config_file w =
     (case files w config_file of
        None \<Rightarrow>
          (Inl (FileNotFoundError (''Configuration file '' @ [CHR 0x27] @ config_file
                                    @ [CHR 0x27] @ '' not found'')), w)
      | Some text \<Rightarrow>
          (case json_loads pf text of
             Inl m \<Rightarrow> (Inl (JSONDecodeError m), w)
           | Inr cfg \<Rightarrow>
               andthen (eval_expr (check_sections cfg required_sections)) (\<lambda>_.
               andthen (print (Line (''Configuration loaded successfully from '' @ config_file))) (\<lambda>_.
               ret cfg)) w))"

text \<open>
  The two handlers: a \<^verbatim>\<open>JSONDecodeError\<close> becomes a \<^verbatim>\<open>ValueError\<close>, every
  other exception of the body (the \<^verbatim>\<open>ValueError\<close> of a missing section too) is
  wrapped in an \<^verbatim>\<open>Exception\<close>.
\<close>

definition load_config :: "platform \<Rightarrow> string \<Rightarrow> json prog" where
  "load_config pf config_file =
     try_except (load_config_body pf config_file)
       (\<lambda>e. case e of
          JSONDecodeError m \<Rightarrow>
            raise_exn (ValueErrorF ''Invalid JSON in configuration file: '' (JSONDecodeError m))
        | _ \<Rightarrow> raise_exn (ExceptionF ''Error loading configuration: '' e))"

subsection \<open>The constructor\<close>

definition init :: "platform \<Rightarrow> string \<Rightarrow> AmazonQBusiness prog" where
  "init pf config_file =
     andthen (load_config pf config_file) (\<lambda>cfg.
     andthen (eval_expr (getpath cfg [''aws'', ''region''])) (\<lambda>region.
     andthen (eval_expr (boto3_client pf region)) (\<lambda>client.
     ret \<lparr>config = cfg, qbusiness = client\<rparr>)))"

subsection \<open>validate_config\<close>

definition account_marker :: string where
  "account_marker = ''<YOUR-ACCOUNT>''"

definition bucket_marker :: string where
  "bucket_marker = ''<YOUR-S3-BUCKET-NAME>''"

definition iam_marker :: string where
  "iam_marker = ''<YOUR-IAM-IDENTITY-CENTER-ARN>''"

definition arn_prefix :: string where
  "arn_prefix = ''arn:aws:sso:::instance/''"

definition account_error :: string where
  "account_error =
     ''Please replace '<YOUR-ACCOUNT>' in dataSource.roleArn with your actual AWS account ID''"

definition bucket_error :: string where
  "bucket_error =
     ''Please replace '<YOUR-S3-BUCKET-NAME>' in dataSource.configuration.additionalProperties.bucketName with your actual S3 bucket name''"

definition iam_error :: string where
  "iam_error =
     ''Please replace '<YOUR-IAM-IDENTITY-CENTER-ARN>' in application.iamIdentityProviderArn with your actual IAM Identity Center ARN''"

definition format_error :: string where
  "format_error = ''Invalid iamIdentityProviderArn format''"

text \<open>
  The four checks, in the order of the source; each appends its message to the list of
  errors. A subscript, the \<^verbatim>\<open>in\<close> test or \<^verbatim>\<open>startswith\<close> can raise.
\<close>

definition collect_errors :: "json \<Rightarrow> py_exn + string list" where
  "collect_errors cfg =
     after (getpath cfg [''dataSource'', ''roleArn'']) (\<lambda>role.
     after (py_in account_marker role) (\<lambda>has_marker.
     let errors1 = (if has_marker then [account_error] else []) in
     after (getpath cfg [''dataSource'', ''configuration'', ''additionalProperties'', ''bucketName''])
       (\<lambda>bucket.
     let errors2 = errors1 @ (if bucket = JStr bucket_marker then [bucket_error] else []) in
     after (getpath cfg [''application'', ''iamIdentityProviderArn'']) (\<lambda>iam.
     let errors3 = errors2 @ (if iam = JStr iam_marker then [iam_error] else []) in
     after (getpath cfg [''application'', ''iamIdentityProviderArn'']) (\<lambda>iam_arn.
     after (startswith iam_arn arn_prefix) (\<lambda>ok.
     Inr (errors3 @ (if \<not> ok then [format_error] else []))))))))"

definition validate_config :: "AmazonQBusiness \<Rightarrow> bool prog" where
  "validate_config self =
     andthen (eval_expr (collect_errors (config self))) (\<lambda>errors.
     if errors \<noteq> [] then
       andthen (print (Line ''Configuration validation errors:'')) (\<lambda>_.
       andthen (print_all (map (\<lambda>error. Line (''  - '' @ error)) errors)) (\<lambda>_.
       ret False))
     else
       andthen (print (Line ''Configuration validation passed'')) (\<lambda>_.
       ret True))"

subsection \<open>The four provisioning methods\<close>

text \<open>
  Each prints, reads its configuration section, builds the keyword arguments, issues one
  call, reads one identifier out of the response, prints it and returns it.
\<close>

definition application_params :: "json \<Rightarrow> py_exn + (string \<times> json) list" where
  "application_params app_config =
     after (copy_fields app_config
              [''displayName'', ''description'', ''identityType'', ''iamIdentityProviderArn''])
       (\<lambda>before.
     after (copy_fields app_config
              [''qAppsConfiguration'', ''personalizationConfiguration'',
               ''attachmentsConfiguration''])
       (\<lambda>behind.
     Inr (before @ [(''clientIdsForOIDC'', JList [])] @ behind)))"

definition create_application :: "AmazonQBusiness \<Rightarrow> json prog" where
  "create_application self =
     andthen (print (Line ''Creating Amazon Q Business application...'')) (\<lambda>_.
     andthen (eval_expr (getitem (config self) ''application'')) (\<lambda>app_config.
     andthen (eval_expr (application_params app_config)) (\<lambda>params.
     andthen (invoke (qbusiness self) CreateApplication params) (\<lambda>application.
     andthen (eval_expr (getitem application ''applicationId'')) (\<lambda>application_id.
     andthen (print (LineVal ''Application created with ID: '' application_id)) (\<lambda>_.
     ret application_id))))))"

definition index_params :: "json \<Rightarrow> json \<Rightarrow> py_exn + (string \<times> json) list" where
  "index_params index_config application_id =
     after (copy_fields index_config
              [''displayName'', ''description'', ''type'', ''capacityConfiguration'',
               ''documentAttributeConfigurations''])
       (\<lambda>fields.
     Inr ((''applicationId'', application_id) # fields))"

definition create_index :: "AmazonQBusiness \<Rightarrow> json \<Rightarrow> json prog" where
  "create_index self application_id =
     andthen (print (Line ''Creating index...'')) (\<lambda>_.
     andthen (eval_expr (getitem (config self) ''index'')) (\<lambda>index_config.
     andthen (eval_expr (index_params index_config application_id)) (\<lambda>params.
     andthen (invoke (qbusiness self) CreateIndex params) (\<lambda>index.
     andthen (eval_expr (getitem index ''indexId'')) (\<lambda>index_id.
     andthen (print (LineVal ''Index created with ID: '' index_id)) (\<lambda>_.
     ret index_id))))))"

definition data_source_params :: "json \<Rightarrow> json \<Rightarrow> json \<Rightarrow> py_exn + (string \<times> json) list" where
  "data_source_params ds_config application_id index_id =
     after (copy_fields ds_config
              [''displayName'', ''description'', ''configuration'', ''syncSchedule'', ''roleArn''])
       (\<lambda>fields.
     Inr ((''applicationId'', application_id) # (''indexId'', index_id) # fields))"

definition create_data_source :: "AmazonQBusiness \<Rightarrow> json \<Rightarrow> json \<Rightarrow> json prog" where
  "create_data_source self application_id index_id =
     andthen (print (Line ''Creating S3 data source...'')) (\<lambda>_.
     andthen (eval_expr (getitem (config self) ''dataSource'')) (\<lambda>ds_config.
     andthen (eval_expr (data_source_params ds_config application_id index_id)) (\<lambda>params.
     andthen (invoke (qbusiness self) CreateDataSource params) (\<lambda>data_source.
     andthen (eval_expr (getitem data_source ''dataSourceId'')) (\<lambda>data_source_id.
     andthen (print (LineVal ''Data source created with ID: '' data_source_id)) (\<lambda>_.
     ret data_source_id))))))"

definition sync_params :: "json \<Rightarrow> json \<Rightarrow> json \<Rightarrow> (string \<times> json) list" where
  "sync_params application_id index_id data_source_id =
     [(''applicationId'', application_id), (''indexId'', index_id),
      (''dataSourceId'', data_source_id)]"

definition start_data_source_sync :: "AmazonQBusiness \<Rightarrow> json \<Rightarrow> json \<Rightarrow> json \<Rightarrow> json prog" where
  "start_data_source_sync self application_id index_id data_source_id =
     andthen (print (Line ''Starting data source synchronization...'')) (\<lambda>_.
     andthen (invoke (qbusiness self) StartDataSourceSyncJob
                (sync_params application_id index_id data_source_id)) (\<lambda>sync_response.
     andthen (eval_expr (getitem sync_response ''executionId'')) (\<lambda>execution_id.
     andthen (print (LineVal ''Sync job started with execution ID: '' execution_id)) (\<lambda>_.
     ret execution_id))))"

subsection \<open>deploy\<close>

definition resources_of :: "json \<Rightarrow> json \<Rightarrow> json \<Rightarrow> json \<Rightarrow> (string \<times> json) list" where
  "resources_of application_id index_id data_source_id execution_id =
     [(''applicationId'', application_id), (''indexId'', index_id),
      (''dataSourceId'', data_source_id), (''executionId'', execution_id)]"

text \<open>The body of the \<^verbatim>\<open>try\<close> of \<open>deploy\<close>.\<close>

definition provision :: "AmazonQBusiness \<Rightarrow> (string \<times> json) list prog" where
  "provision self =
     andthen (create_application self) (\<lambda>application_id.
     andthen (create_index self application_id) (\<lambda>index_id.
     andthen (create_data_source self application_id index_id) (\<lambda>data_source_id.
     andthen (start_data_source_sync self application_id index_id data_source_id) (\<lambda>execution_id.
     andthen (print (Line (CHR 0x0A # replicate 50 CHR ''=''))) (\<lambda>_.
     andthen (print (Line ''Deployment completed successfully!'')) (\<lambda>_.
     andthen (print (Line ''Resources created:'')) (\<lambda>_.
     andthen (print_all (map (\<lambda>(key, val). LineVal (''  '' @ key @ '': '') val)
                (resources_of application_id index_id data_source_id execution_id))) (\<lambda>_.
     ret (resources_of application_id index_id data_source_id execution_id)))))))))"

definition deploy :: "AmazonQBusiness \<Rightarrow> (string \<times> json) list prog" where
  "deploy self =
     andthen (print (Line ''Starting Amazon Q Business deployment...'')) (\<lambda>_.
     andthen (print (Line (replicate 50 CHR ''=''))) (\<lambda>_.
     andthen (validate_config self) (\<lambda>valid.
     if \<not> valid then
       raise_exn (ValueError
         ''Configuration validation failed. Please fix the errors and try again.'')
     else
       try_except (provision self)
         (\<lambda>e. andthen (print (LineExn ''Deployment failed: '' e)) (\<lambda>_. raise_exn e)))))"

section \<open>main\<close>

text \<open>\<^verbatim>\<open>with open(path, 'w') as f: json.dump(...)\<close>: the file holds the new text only.\<close>

definition write_file :: "string \<Rightarrow> string \<Rightarrow> unit prog" where
  "write_file path text w = (Inr (), w\<lparr>files := (files w)(path \<mapsto> text)\<rparr>)"

definition output_file :: string where
  "output_file = ''deployment_output.json''"

text \<open>
  The body of the \<^verbatim>\<open>try\<close> of \<open>main\<close>; falling off its end, the process exits with
  status 0.
\<close>

definition main_body :: "platform \<Rightarrow> int prog" where
  "main_body pf =
     andthen (init pf ''config.json'') (\<lambda>deployment.
     andthen (deploy deployment) (\<lambda>resources.
     andthen (write_file output_file (json_dumps pf (JObj resources))) (\<lambda>_.
     andthen (print (Line (CHR 0x0A # ''Resource IDs saved to '' @ output_file))) (\<lambda>_.
     ret 0))))"

text \<open>
  The handler prints the error and calls \<^verbatim>\<open>sys.exit(1)\<close>. The result of a run is
  the exit status and the final state.
\<close>

definition main :: "platform \<Rightarrow> world \<Rightarrow> int \<times> world" where
  "main pf w =
     (case try_except (main_body pf)
             (\<lambda>e. andthen (print (LineExn ''Error: '' e)) (\<lambda>_. ret 1)) w of
        (Inr status, w') \<Rightarrow> (status, w')
      | (Inl e, w') \<Rightarrow> (1, w'))"

section \<open>Concrete configurations, services and states\<close>

text \<open>
  A configuration with every key the script reads, as a function of the three values the
  validator looks at: \<open>dataSource.roleArn\<close>, \<open>dataSource.configuration\<close> and
  \<open>application.iamIdentityProviderArn\<close>. Its application section lists an OIDC client.
\<close>

definition config_with :: "json \<Rightarrow> json \<Rightarrow> json \<Rightarrow> json" where
  "config_with role_arn configuration iam_arn = JObj
     [(''aws'', JObj [(''region'', JStr ''us-east-1'')]),
      (''application'', JObj
         [(''displayName'', JStr ''RegDocs''),
          (''description'', JStr ''Regulatory documents''),
          (''identityType'', JStr ''AWS_IAM_IDC''),
          (''iamIdentityProviderArn'', iam_arn),
          (''clientIdsForOIDC'', JList [JStr ''client-1'']),
          (''qAppsConfiguration'', JObj [(''qAppsControlMode'', JStr ''DISABLED'')]),
          (''personalizationConfiguration'',
             JObj [(''personalizationControlMode'', JStr ''ENABLED'')]),
          (''attachmentsConfiguration'',
             JObj [(''attachmentsControlMode'', JStr ''ENABLED'')])]),
      (''index'', JObj
         [(''displayName'', JStr ''RegDocsIndex''),
          (''description'', JStr ''Index of the documents''),
          (''type'', JStr ''STARTER''),
          (''capacityConfiguration'', JObj [(''units'', JInt 1)]),
          (''documentAttributeConfigurations'', JList [])]),
      (''dataSource'', JObj
         [(''displayName'', JStr ''RegDocsS3''),
          (''description'', JStr ''Bucket of the documents''),
          (''configuration'', configuration),
          (''syncSchedule'', JStr []),
          (''roleArn'', role_arn)])]"

definition bucket_configuration :: "json \<Rightarrow> json" where
  "bucket_configuration bucket =
     JObj [(''type'', JStr ''S3''),
           (''additionalProperties'', JObj [(''bucketName'', bucket)])]"

definition good_role :: json where
  "good_role = JStr ''arn:aws:iam::123456789012:role/QBusinessRole''"

definition template_role :: json where
  "template_role = JStr ''arn:aws:iam::<YOUR-ACCOUNT>:role/QBusinessRole''"

definition good_iam :: json where
  "good_iam = JStr ''arn:aws:sso:::instance/ssoins-1234''"

definition example_config :: json where
  "example_config = config_with good_role (bucket_configuration (JStr ''reg-docs'')) good_iam"

text \<open>The template's role, every other value replaced.\<close>

definition template_role_config :: json where
  "template_role_config =
     config_with template_role (bucket_configuration (JStr ''reg-docs'')) good_iam"

text \<open>Configurations with every key of the interface and an inner value that cannot be read.\<close>

definition no_properties_config :: json where
  "no_properties_config = config_with template_role (JObj [(''type'', JStr ''S3'')]) good_iam"

definition no_bucket_config :: json where
  "no_bucket_config =
     config_with good_role
       (JObj [(''type'', JStr ''S3''), (''additionalProperties'', JObj [])]) good_iam"

definition null_iam_config :: json where
  "null_iam_config =
     config_with template_role (bucket_configuration (JStr ''<YOUR-S3-BUCKET-NAME>'')) JNull"

text \<open>A document without the \<open>index\<close> and \<open>dataSource\<close> sections.\<close>

definition two_section_config :: json where
  "two_section_config =
     JObj [(''aws'', JObj [(''region'', JStr ''us-east-1'')]), (''application'', JObj [])]"

text \<open>
  A service that answers each operation with a fixed identifier, and one whose
  data-source creation is refused.
\<close>

fun example_remote :: remote where
  "example_remote history (Request CreateApplication params) =
     Inr (JObj [(''applicationId'', JStr ''A1'')])"
| "example_remote history (Request CreateIndex params) =
     Inr (JObj [(''indexId'', JStr ''I1'')])"
| "example_remote history (Request CreateDataSource params) =
     Inr (JObj [(''dataSourceId'', JStr ''D1'')])"
| "example_remote history (Request StartDataSourceSyncJob params) =
     Inr (JObj [(''executionId'', JStr ''E1'')])"

fun refusing_remote :: remote where
  "refusing_remote history (Request CreateDataSource params) =
     Inl (ClientError ''AccessDeniedException'')"
| "refusing_remote history req = example_remote history req"

text \<open>A serialiser for the examples: the keys and the string values, one pair a line.\<close>

fun example_dumps :: "json \<Rightarrow> string" where
  "example_dumps (JObj kvs) =
     concat (map (\<lambda>(k, v). k @ '': '' @ (case v of JStr t \<Rightarrow> t | _ \<Rightarrow> ''?'') @ [CHR 0x0A]) kvs)"
| "example_dumps _ = ''?''"

text \<open>
  A platform whose parser reads the text \<open>cfg\<close> as the given document and whose client
  is the given service.
\<close>

definition platform_of :: "json \<Rightarrow> remote \<Rightarrow> platform" where
  "platform_of cfg svc =
     \<lparr>json_loads = (\<lambda>t. if t = ''cfg'' then Inr cfg else Inl ''Expecting value''),
      json_dumps = example_dumps,
      boto3_client = (\<lambda>region. Inr svc)\<rparr>"

text \<open>A state with the configuration file and an output file left by an earlier run.\<close>

definition example_world :: world where
  "example_world =
     \<lparr>files = [''config.json'' \<mapsto> ''cfg'', ''deployment_output.json'' \<mapsto> ''stale''],
      stdout = [], calls = []\<rparr>"

definition example_self :: "json \<Rightarrow> AmazonQBusiness" where
  "example_self cfg = \<lparr>config = cfg, qbusiness = example_remote\<rparr>"

section \<open>Facts about the operations\<close>

text \<open>The two string functions are the prefix and the contiguous-sublist relations.\<close>

lemma str_startswith_prefix: "str_startswith s p = prefix p s"
  by (induction s p rule: str_startswith.induct) auto

lemma str_contains_sublist: "str_contains p s = sublist p s"
proof (induction s)
  case Nil
  then show ?case by simp
next
  case (Cons c s)
  then show ?case by (simp add: str_startswith_prefix sublist_Cons_right)
qed

lemma print_all_eq: "print_all ls w = (Inr (), w\<lparr>stdout := stdout w @ ls\<rparr>)"
  by (induction ls arbitrary: w) (simp_all add: ret_def andthen_def print_def)

lemma validate_config_eq:
  "validate_config self w =
     (case collect_errors (config self) of
        Inl e \<Rightarrow> (Inl e, w)
      | Inr es \<Rightarrow>
          (Inr (es = []),
           w\<lparr>stdout := stdout w @
                (if es = [] then [Line ''Configuration validation passed'']
                 else Line ''Configuration validation errors:''
                      # map (\<lambda>error. Line (''  - '' @ error)) es)\<rparr>))"
  by (simp add: validate_config_def andthen_def eval_expr_def print_def ret_def print_all_eq
      split: sum.splits)

lemma collect_errors_readable:
  assumes "getpath cfg [''dataSource'', ''roleArn''] = Inr role"
    and "py_in account_marker role = Inr t"
    and "getpath cfg [''dataSource'', ''configuration'', ''additionalProperties'', ''bucketName'']
         = Inr b"
    and "getpath cfg [''application'', ''iamIdentityProviderArn''] = Inr (JStr i)"
  shows "collect_errors cfg =
           Inr ((if t then [account_error] else []) @
                (if b = JStr bucket_marker then [bucket_error] else []) @
                (if i = iam_marker then [iam_error] else []) @
                (if \<not> str_startswith i arn_prefix then [format_error] else []))"
  using assms unfolding collect_errors_def
  by (simp add: after_def Let_def)

lemma errors_distinct: "distinct [account_error, bucket_error, iam_error, format_error]"
  by (simp add: account_error_def bucket_error_def iam_error_def format_error_def)

lemma collect_errors_Inr_readable:
  assumes es: "collect_errors cfg = Inr es"
  shows "\<exists>role t b i.
     getpath cfg [''dataSource'', ''roleArn''] = Inr role \<and>
     py_in account_marker role = Inr t \<and>
     getpath cfg [''dataSource'', ''configuration'', ''additionalProperties'', ''bucketName'']
       = Inr b \<and>
     getpath cfg [''application'', ''iamIdentityProviderArn''] = Inr (JStr i)"
proof -
  from es obtain role where r: "getpath cfg [''dataSource'', ''roleArn''] = Inr role"
    unfolding collect_errors_def after_def
    by (cases "getpath cfg [''dataSource'', ''roleArn'']") simp_all
  from es r obtain t where t: "py_in account_marker role = Inr t"
    unfolding collect_errors_def after_def by (cases "py_in account_marker role") simp_all
  from es r t obtain b where
    b: "getpath cfg [''dataSource'', ''configuration'', ''additionalProperties'', ''bucketName'']
        = Inr b"
    unfolding collect_errors_def after_def Let_def
    by (cases "getpath cfg
                 [''dataSource'', ''configuration'', ''additionalProperties'', ''bucketName'']")
       simp_all
  from es r t b obtain iam where
    iam: "getpath cfg [''application'', ''iamIdentityProviderArn''] = Inr iam"
    unfolding collect_errors_def after_def Let_def
    by (cases "getpath cfg [''application'', ''iamIdentityProviderArn'']") simp_all
  from es r t b iam obtain ok where "startswith iam arn_prefix = Inr ok"
    unfolding collect_errors_def after_def Let_def
    by (cases "startswith iam arn_prefix") simp_all
  then obtain i where "iam = JStr i" by (cases iam) simp_all
  with r t b iam show ?thesis by blast
qed

lemmas config_defs = config_with_def bucket_configuration_def good_role_def template_role_def
  good_iam_def example_config_def template_role_config_def no_properties_config_def
  no_bucket_config_def null_iam_config_def two_section_config_def

lemmas marker_defs = account_marker_def bucket_marker_def iam_marker_def arn_prefix_def

section \<open>The validator\<close>

text \<open>
  Claim C7. A configuration whose role does not trigger the account-placeholder check,
  whose bucket name is not the bucket placeholder and whose identity-provider reference
  is not the placeholder and starts with \<open>arn:aws:sso:::instance/\<close> is accepted:
  \<open>validate_config\<close> prints that validation passed and returns \<open>True\<close>.
\<close>

theorem validate_config_accepts:
  assumes "getpath (config self) [''dataSource'', ''roleArn''] = Inr role"
    and "py_in account_marker role = Inr False"
    and "getpath (config self)
           [''dataSource'', ''configuration'', ''additionalProperties'', ''bucketName''] = Inr b"
    and "b \<noteq> JStr bucket_marker"
    and "getpath (config self) [''application'', ''iamIdentityProviderArn''] = Inr (JStr i)"
    and "i \<noteq> iam_marker"
    and "str_startswith i arn_prefix"
  shows "validate_config self w =
           (Inr True, w\<lparr>stdout := stdout w @ [Line ''Configuration validation passed'']\<rparr>)"
  using assms by (simp add: validate_config_eq collect_errors_readable)

theorem validate_config_accepts_witness:
  "getpath example_config [''dataSource'', ''roleArn''] = Inr good_role \<and>
   py_in account_marker good_role = Inr False \<and>
   getpath example_config
     [''dataSource'', ''configuration'', ''additionalProperties'', ''bucketName'']
     = Inr (JStr ''reg-docs'') \<and>
   JStr ''reg-docs'' \<noteq> JStr bucket_marker \<and>
   getpath example_config [''application'', ''iamIdentityProviderArn'']
     = Inr (JStr ''arn:aws:sso:::instance/ssoins-1234'') \<and>
   ''arn:aws:sso:::instance/ssoins-1234'' \<noteq> iam_marker \<and>
   str_startswith ''arn:aws:sso:::instance/ssoins-1234'' arn_prefix \<and>
   validate_config (example_self example_config) example_world =
     (Inr True, example_world\<lparr>stdout := [Line ''Configuration validation passed'']\<rparr>)"
proof -
  have h1: "getpath (config (example_self example_config)) [''dataSource'', ''roleArn'']
            = Inr good_role"
    by (simp add: example_self_def config_defs after_def)
  have h2: "py_in account_marker good_role = Inr False"
    by (simp add: good_role_def marker_defs)
  have h3: "getpath (config (example_self example_config))
              [''dataSource'', ''configuration'', ''additionalProperties'', ''bucketName'']
            = Inr (JStr ''reg-docs'')"
    by (simp add: example_self_def config_defs after_def)
  have h4: "JStr ''reg-docs'' \<noteq> JStr bucket_marker"
    by (simp add: marker_defs)
  have h5: "getpath (config (example_self example_config))
              [''application'', ''iamIdentityProviderArn'']
            = Inr (JStr ''arn:aws:sso:::instance/ssoins-1234'')"
    by (simp add: example_self_def config_defs after_def)
  have h6: "''arn:aws:sso:::instance/ssoins-1234'' \<noteq> iam_marker"
    by (simp add: marker_defs)
  have h7: "str_startswith ''arn:aws:sso:::instance/ssoins-1234'' arn_prefix"
    by (simp add: marker_defs)
  from validate_config_accepts [OF h1 h2 h3 h4 h5 h6 h7, of example_world]
  have "validate_config (example_self example_config) example_world =
     (Inr True, example_world\<lparr>stdout := [Line ''Configuration validation passed'']\<rparr>)"
    by (simp add: example_world_def)
  with h1 h2 h3 h4 h5 h6 h7 show ?thesis by (simp add: example_self_def)
qed

text \<open>
  Claim C5 says that each of the three placeholder checks is an exact-string comparison.
  The account check is not: it is a substring test, and the role of the configuration
  template, which holds the marker between other text, is flagged without being equal to
  the marker.
\<close>

theorem account_check_not_exact_counterexample:
  "collect_errors template_role_config = Inr [account_error] \<and>
   getpath template_role_config [''dataSource'', ''roleArn''] = Inr template_role \<and>
   template_role \<noteq> JStr account_marker"
  by (simp add: collect_errors_def config_defs marker_defs after_def)

text \<open>
  Claim C5, amended. When the role and the identity-provider reference are strings and
  the bucket name can be read, the account check flags a violation if and only if the
  role contains the marker \<open><YOUR-ACCOUNT>\<close> as a substring; the bucket check and
  the identity-provider check flag one if and only if the value is exactly the marker;
  the format check flags one if and only if the reference does not start with
  \<open>arn:aws:sso:::instance/\<close>.
\<close>

theorem checks_flag_iff:
  assumes "getpath cfg [''dataSource'', ''roleArn''] = Inr (JStr r)"
    and "getpath cfg [''dataSource'', ''configuration'', ''additionalProperties'', ''bucketName'']
         = Inr b"
    and "getpath cfg [''application'', ''iamIdentityProviderArn''] = Inr (JStr i)"
  shows "\<exists>es. collect_errors cfg = Inr es \<and>
           (account_error \<in> set es \<longleftrightarrow> sublist account_marker r) \<and>
           (bucket_error \<in> set es \<longleftrightarrow> b = JStr bucket_marker) \<and>
           (iam_error \<in> set es \<longleftrightarrow> i = iam_marker) \<and>
           (format_error \<in> set es \<longleftrightarrow> \<not> prefix arn_prefix i)"
proof -
  have "py_in account_marker (JStr r) = Inr (str_contains account_marker r)" by simp
  from collect_errors_readable [OF assms(1) this assms(2) assms(3)] errors_distinct
  show ?thesis
    by (auto simp: str_contains_sublist str_startswith_prefix)
qed

theorem checks_flag_iff_witness:
  "getpath template_role_config [''dataSource'', ''roleArn'']
     = Inr (JStr ''arn:aws:iam::<YOUR-ACCOUNT>:role/QBusinessRole'') \<and>
   getpath template_role_config
     [''dataSource'', ''configuration'', ''additionalProperties'', ''bucketName'']
     = Inr (JStr ''reg-docs'') \<and>
   getpath template_role_config [''application'', ''iamIdentityProviderArn'']
     = Inr (JStr ''arn:aws:sso:::instance/ssoins-1234'') \<and>
   (\<exists>es. collect_errors template_role_config = Inr es \<and>
      (account_error \<in> set es \<longleftrightarrow>
         sublist account_marker ''arn:aws:iam::<YOUR-ACCOUNT>:role/QBusinessRole'') \<and>
      (bucket_error \<in> set es \<longleftrightarrow> JStr ''reg-docs'' = JStr bucket_marker) \<and>
      (iam_error \<in> set es \<longleftrightarrow> ''arn:aws:sso:::instance/ssoins-1234'' = iam_marker) \<and>
      (format_error \<in> set es \<longleftrightarrow>
         \<not> prefix arn_prefix ''arn:aws:sso:::instance/ssoins-1234''))"
proof -
  have h1: "getpath template_role_config [''dataSource'', ''roleArn'']
     = Inr (JStr ''arn:aws:iam::<YOUR-ACCOUNT>:role/QBusinessRole'')"
    by (simp add: config_defs after_def)
  have h2: "getpath template_role_config
     [''dataSource'', ''configuration'', ''additionalProperties'', ''bucketName'']
     = Inr (JStr ''reg-docs'')"
    by (simp add: config_defs after_def)
  have h3: "getpath template_role_config [''application'', ''iamIdentityProviderArn'']
     = Inr (JStr ''arn:aws:sso:::instance/ssoins-1234'')"
    by (simp add: config_defs after_def)
  from checks_flag_iff [OF h1 h2 h3] h1 h2 h3 show ?thesis by simp
qed




text \<open>
  Claim C8 says that all four checks are evaluated on every invocation and that every
  accumulated error is printed when a violation exists. With the template's role and
  bucket name (two violations) and a \<^verbatim>\<open>null\<close> identity-provider reference, the
  fourth check raises an \<^verbatim>\<open>AttributeError\<close>: nothing is printed and nothing is
  returned.
\<close>

theorem validate_config_stops_counterexample:
  "getpath null_iam_config [''dataSource'', ''roleArn''] = Inr template_role \<and>
   py_in account_marker template_role = Inr True \<and>
   getpath null_iam_config
     [''dataSource'', ''configuration'', ''additionalProperties'', ''bucketName'']
     = Inr (JStr bucket_marker) \<and>
   validate_config (example_self null_iam_config) example_world
     = (Inl AttributeError, example_world)"
  by (simp add: validate_config_eq collect_errors_def example_self_def config_defs marker_defs
        after_def)

text \<open>
  Claim C8, amended. On every invocation in which no check raises, \<open>validate_config\<close>
  evaluates all four checks and accumulates the message of every violated one, in the
  order of the checks; when there is at least one, it prints the heading and every
  accumulated message and returns \<open>False\<close>, otherwise it prints that validation passed
  and returns \<open>True\<close>.
\<close>

theorem validate_config_accumulates:
  assumes "getpath (config self) [''dataSource'', ''roleArn''] = Inr role"
    and "py_in account_marker role = Inr t"
    and "getpath (config self)
           [''dataSource'', ''configuration'', ''additionalProperties'', ''bucketName''] = Inr b"
    and "getpath (config self) [''application'', ''iamIdentityProviderArn''] = Inr (JStr i)"
    and "es = (if t then [account_error] else []) @
              (if b = JStr bucket_marker then [bucket_error] else []) @
              (if i = iam_marker then [iam_error] else []) @
              (if \<not> str_startswith i arn_prefix then [format_error] else [])"
  shows "validate_config self w =
           (Inr (es = []),
            w\<lparr>stdout := stdout w @
                 (if es = [] then [Line ''Configuration validation passed'']
                  else Line ''Configuration validation errors:''
                       # map (\<lambda>error. Line (''  - '' @ error)) es)\<rparr>)"
  unfolding validate_config_eq collect_errors_readable [OF assms(1-4)] assms(5) by simp

theorem validate_config_accumulates_witness:
  "validate_config
     (example_self (config_with template_role (bucket_configuration (JStr bucket_marker))
                      (JStr iam_marker)))
     example_world =
   (Inr False,
    example_world\<lparr>stdout :=
      [Line ''Configuration validation errors:'',
       Line (''  - '' @ account_error), Line (''  - '' @ bucket_error),
       Line (''  - '' @ iam_error), Line (''  - '' @ format_error)]\<rparr>)"
proof -
  let ?cfg = "config_with template_role (bucket_configuration (JStr bucket_marker))
                (JStr iam_marker)"
  have h1: "getpath (config (example_self ?cfg)) [''dataSource'', ''roleArn''] = Inr template_role"
    by (simp add: example_self_def config_defs after_def)
  have h2: "py_in account_marker template_role = Inr True"
    by (simp add: template_role_def marker_defs)
  have h3: "getpath (config (example_self ?cfg))
              [''dataSource'', ''configuration'', ''additionalProperties'', ''bucketName'']
            = Inr (JStr bucket_marker)"
    by (simp add: example_self_def config_defs after_def)
  have h4: "getpath (config (example_self ?cfg)) [''application'', ''iamIdentityProviderArn'']
            = Inr (JStr iam_marker)"
    by (simp add: example_self_def config_defs after_def)
  have h5: "[account_error, bucket_error, iam_error, format_error] =
            (if True then [account_error] else []) @
            (if JStr bucket_marker = JStr bucket_marker then [bucket_error] else []) @
            (if iam_marker = iam_marker then [iam_error] else []) @
            (if \<not> str_startswith iam_marker arn_prefix then [format_error] else [])"
    by (simp add: marker_defs)
  from validate_config_accumulates [OF h1 h2 h3 h4 h5, of example_world]
  show ?thesis by (simp add: example_world_def)
qed

section \<open>The provisioning methods\<close>

lemmas prog_defs = ret_def raise_exn_def eval_expr_def andthen_def try_except_def print_def
  invoke_def write_file_def

lemma copy_fields_keys: "copy_fields sec ks = Inr kvs \<Longrightarrow> map fst kvs = ks"
proof (induction ks arbitrary: kvs)
  case Nil
  then show ?case by simp
next
  case (Cons k ks)
  then show ?case
    by (auto simp: after_def split: sum.splits)
qed

lemma filter_key_absent: "k \<notin> set (map fst kvs) \<Longrightarrow> filter (\<lambda>kv. fst kv = k) kvs = []"
  by (induction kvs) auto

lemma application_params_keys:
  assumes "application_params app_config = Inr params"
  shows "map fst params =
     [''displayName'', ''description'', ''identityType'', ''iamIdentityProviderArn'',
      ''clientIdsForOIDC'', ''qAppsConfiguration'', ''personalizationConfiguration'',
      ''attachmentsConfiguration'']"
proof -
  from assms obtain before behind where
    b1: "copy_fields app_config
           [''displayName'', ''description'', ''identityType'', ''iamIdentityProviderArn'']
         = Inr before"
    and b2: "copy_fields app_config
           [''qAppsConfiguration'', ''personalizationConfiguration'',
            ''attachmentsConfiguration''] = Inr behind"
    and p: "params = before @ [(''clientIdsForOIDC'', JList [])] @ behind"
    unfolding application_params_def after_def
    by (auto simp del: copy_fields.simps split: sum.splits)
  from copy_fields_keys [OF b1] copy_fields_keys [OF b2] p show ?thesis by simp
qed

lemma application_params_oidc:
  assumes "application_params app_config = Inr params"
  shows "filter (\<lambda>kv. fst kv = ''clientIdsForOIDC'') params = [(''clientIdsForOIDC'', JList [])]"
proof -
  from assms obtain before behind where
    b1: "copy_fields app_config
           [''displayName'', ''description'', ''identityType'', ''iamIdentityProviderArn'']
         = Inr before"
    and b2: "copy_fields app_config
           [''qAppsConfiguration'', ''personalizationConfiguration'',
            ''attachmentsConfiguration''] = Inr behind"
    and p: "params = before @ [(''clientIdsForOIDC'', JList [])] @ behind"
    unfolding application_params_def after_def
    by (auto simp del: copy_fields.simps split: sum.splits)
  have "''clientIdsForOIDC'' \<notin> set (map fst before)"
    unfolding copy_fields_keys [OF b1] by simp
  then have "filter (\<lambda>kv. fst kv = ''clientIdsForOIDC'') before = []"
    by (rule filter_key_absent)
  moreover have "''clientIdsForOIDC'' \<notin> set (map fst behind)"
    unfolding copy_fields_keys [OF b2] by simp
  then have "filter (\<lambda>kv. fst kv = ''clientIdsForOIDC'') behind = []"
    by (rule filter_key_absent)
  ultimately show ?thesis using p by simp
qed

lemma index_params_keys:
  assumes "index_params index_config a = Inr params"
  shows "\<exists>fields. params = (''applicationId'', a) # fields \<and>
           map fst fields = [''displayName'', ''description'', ''type'',
             ''capacityConfiguration'', ''documentAttributeConfigurations'']"
  using assms unfolding index_params_def after_def
  by (auto simp del: copy_fields.simps split: sum.splits dest: copy_fields_keys)

lemma data_source_params_keys:
  assumes "data_source_params ds_config a i = Inr params"
  shows "\<exists>fields. params = (''applicationId'', a) # (''indexId'', i) # fields \<and>
           map fst fields = [''displayName'', ''description'', ''configuration'',
             ''syncSchedule'', ''roleArn'']"
  using assms unfolding data_source_params_def after_def
  by (auto simp del: copy_fields.simps split: sum.splits dest: copy_fields_keys)

text \<open>
  Claim C10. Whatever the configuration holds, a run of \<open>create_application\<close> either
  issues no call (building the arguments raised) or issues exactly one
  \<open>CreateApplication\<close> call whose only \<open>clientIdsForOIDC\<close> argument is the empty list:
  client identifiers of the configuration file are never forwarded.
\<close>

theorem create_application_oidc_empty:
  "calls (snd (create_application self w)) = calls w \<or>
   (\<exists>params.
      calls (snd (create_application self w)) = calls w @ [Request CreateApplication params] \<and>
      filter (\<lambda>kv. fst kv = ''clientIdsForOIDC'') params = [(''clientIdsForOIDC'', JList [])])"
proof (cases "getitem (config self) ''application''")
  case (Inl e)
  then show ?thesis by (simp add: create_application_def prog_defs)
next
  case (Inr app_config)
  show ?thesis
  proof (cases "application_params app_config")
    case (Inl e)
    with Inr show ?thesis by (simp add: create_application_def prog_defs)
  next
    case params: (Inr params)
    have "calls (snd (create_application self w)) = calls w @ [Request CreateApplication params]"
      using Inr params by (simp add: create_application_def prog_defs split: sum.splits)
    with application_params_oidc [OF params] show ?thesis by blast
  qed
qed

theorem create_application_oidc_empty_witness:
  "getpath example_config [''application'', ''clientIdsForOIDC''] = Inr (JList [JStr ''client-1'']) \<and>
   (\<exists>params.
      calls (snd (create_application (example_self example_config) example_world))
        = [Request CreateApplication params] \<and>
      filter (\<lambda>kv. fst kv = ''clientIdsForOIDC'') params = [(''clientIdsForOIDC'', JList [])])"
proof -
  have c: "calls (snd (create_application (example_self example_config) example_world)) \<noteq>
        calls example_world"
    by (simp add: create_application_def prog_defs example_self_def example_world_def config_defs
          application_params_def after_def)
  have "getpath example_config [''application'', ''clientIdsForOIDC'']
          = Inr (JList [JStr ''client-1''])"
    by (simp add: config_defs after_def)
  with create_application_oidc_empty [of "example_self example_config" example_world] c
  show ?thesis by (simp add: example_world_def)
qed

section \<open>What a run leaves unchanged\<close>

text \<open>
  Only \<open>write_file\<close> changes the files and only \<open>invoke\<close> issues a call: loading,
  constructing and validating change neither, and \<open>deploy\<close> changes no file.
\<close>

lemma andthen_files:
  assumes "\<And>w. files (snd (m w)) = files w" and "\<And>v w. files (snd (f v w)) = files w"
  shows "files (snd (andthen m f w)) = files w"
proof (cases "m w")
  case (Pair r w')
  with assms(1) [of w] have "files w' = files w" by simp
  with Pair assms(2) show ?thesis by (cases r) (simp_all add: andthen_def)
qed

lemma try_except_files:
  assumes "\<And>w. files (snd (m w)) = files w" and "\<And>e w. files (snd (h e w)) = files w"
  shows "files (snd (try_except m h w)) = files w"
proof (cases "m w")
  case (Pair r w')
  with assms(1) [of w] have "files w' = files w" by simp
  with Pair assms(2) show ?thesis by (cases r) (simp_all add: try_except_def)
qed

lemma andthen_calls:
  assumes "\<And>w. calls (snd (m w)) = calls w" and "\<And>v w. calls (snd (f v w)) = calls w"
  shows "calls (snd (andthen m f w)) = calls w"
proof (cases "m w")
  case (Pair r w')
  with assms(1) [of w] have "calls w' = calls w" by simp
  with Pair assms(2) show ?thesis by (cases r) (simp_all add: andthen_def)
qed

lemma try_except_calls:
  assumes "\<And>w. calls (snd (m w)) = calls w" and "\<And>e w. calls (snd (h e w)) = calls w"
  shows "calls (snd (try_except m h w)) = calls w"
proof (cases "m w")
  case (Pair r w')
  with assms(1) [of w] have "calls w' = calls w" by simp
  with Pair assms(2) show ?thesis by (cases r) (simp_all add: try_except_def)
qed

lemmas basic_defs = ret_def raise_exn_def eval_expr_def print_def invoke_def write_file_def

lemma validate_config_files: "files (snd (validate_config self w)) = files w"
  by (simp add: validate_config_eq split: sum.splits)

lemma validate_config_calls: "calls (snd (validate_config self w)) = calls w"
  by (simp add: validate_config_eq split: sum.splits)

lemma load_config_body_files: "files (snd (load_config_body pf cf w)) = files w"
  by (simp add: load_config_body_def andthen_def basic_defs split: option.splits sum.splits)

lemma load_config_body_calls: "calls (snd (load_config_body pf cf w)) = calls w"
  by (simp add: load_config_body_def andthen_def basic_defs split: option.splits sum.splits)

lemma load_config_files: "files (snd (load_config pf cf w)) = files w"
  unfolding load_config_def
  by (rule try_except_files) (simp_all add: load_config_body_files basic_defs split: py_exn.splits)

lemma load_config_calls: "calls (snd (load_config pf cf w)) = calls w"
  unfolding load_config_def
  by (rule try_except_calls) (simp_all add: load_config_body_calls basic_defs split: py_exn.splits)

lemma init_files: "files (snd (init pf cf w)) = files w"
  unfolding init_def
  by (intro andthen_files) (simp_all add: load_config_files basic_defs)

lemma init_calls: "calls (snd (init pf cf w)) = calls w"
  unfolding init_def
  by (intro andthen_calls) (simp_all add: load_config_calls basic_defs)

lemma create_application_files: "files (snd (create_application self w)) = files w"
  unfolding create_application_def
  by (intro andthen_files) (simp_all add: basic_defs)

lemma create_index_files: "files (snd (create_index self a w)) = files w"
  unfolding create_index_def
  by (intro andthen_files) (simp_all add: basic_defs)

lemma create_data_source_files: "files (snd (create_data_source self a i w)) = files w"
  unfolding create_data_source_def
  by (intro andthen_files) (simp_all add: basic_defs)

lemma start_data_source_sync_files: "files (snd (start_data_source_sync self a i d w)) = files w"
  unfolding start_data_source_sync_def
  by (intro andthen_files) (simp_all add: basic_defs)

lemma provision_files: "files (snd (provision self w)) = files w"
  unfolding provision_def
  by (intro andthen_files)
     (simp_all add: create_application_files create_index_files create_data_source_files
        start_data_source_sync_files print_all_eq basic_defs)

lemma handler_files:
  "files (snd (andthen (print (LineExn p e)) (\<lambda>_. raise_exn e) w)) = files w"
  by (simp add: andthen_def basic_defs)

lemma deploy_files: "files (snd (deploy self w)) = files w"
proof -
  have guarded: "files (snd ((if \<not> valid then raise_exn x
       else try_except (provision self)
              (\<lambda>e. andthen (print (LineExn p e)) (\<lambda>_. raise_exn e))) w)) = files w"
    for valid x p w
    by (simp add: raise_exn_def try_except_files provision_files handler_files)
  show ?thesis
    unfolding deploy_def
    by (intro andthen_files) (simp_all add: validate_config_files guarded print_def)
qed

lemma provision_shape:
  assumes "provision self w = (Inr res, w')"
  shows "\<exists>a i d e. res = resources_of a i d e"
  using assms unfolding provision_def
  by (auto simp: andthen_def ret_def print_def print_all_eq split: sum.splits prod.splits)

lemma deploy_shape:
  assumes "deploy self w = (Inr res, w')"
  shows "\<exists>a i d e. res = resources_of a i d e"
proof -
  from assms obtain w1 where "provision self w1 = (Inr res, w')"
    unfolding deploy_def
    by (auto simp: andthen_def print_def raise_exn_def try_except_def
          split: sum.splits prod.splits if_splits)
  then show ?thesis by (rule provision_shape)
qed

lemma main_init_fails:
  assumes "init pf ''config.json'' w = (Inl e, w1)"
  shows "main pf w = (1, w1\<lparr>stdout := stdout w1 @ [LineExn ''Error: '' e]\<rparr>)"
  using assms by (simp add: main_def main_body_def try_except_def andthen_def print_def ret_def)

lemma main_deploy_fails:
  assumes "init pf ''config.json'' w = (Inr self, w1)" and "deploy self w1 = (Inl e, w2)"
  shows "main pf w = (1, w2\<lparr>stdout := stdout w2 @ [LineExn ''Error: '' e]\<rparr>)"
  using assms by (simp add: main_def main_body_def try_except_def andthen_def print_def ret_def)

lemma main_succeeds:
  assumes "init pf ''config.json'' w = (Inr self, w1)" and "deploy self w1 = (Inr res, w2)"
  shows "main pf w =
    (0, w2\<lparr>files := (files w2)(output_file \<mapsto> json_dumps pf (JObj res)),
           stdout := stdout w2 @ [Line (CHR 0x0A # ''Resource IDs saved to '' @ output_file)]\<rparr>)"
  using assms
  by (simp add: main_def main_body_def try_except_def andthen_def print_def ret_def
        write_file_def)

section \<open>The loader\<close>

lemma check_sections_obj:
  "check_sections (JObj kvs) ss =
     (case find (\<lambda>s. s \<notin> fst ` set kvs) ss of
        None \<Rightarrow> Inr ()
      | Some s \<Rightarrow> Inl (ValueError (''Missing required configuration section: '' @ s)))"
  by (induction ss) (simp_all add: after_def)

text \<open>
  Claim C4. When the configuration file holds a key-value document that lacks at least
  one of the four required sections, \<open>load_config\<close> fails, and its error names the
  first section, in the order \<open>aws\<close>, \<open>application\<close>, \<open>index\<close>, \<open>dataSource\<close>,
  that the document lacks. Validation is never reached: the constructor fails with the
  same error, so no object exists to validate, and a run of \<open>main\<close> prints this error
  only and exits with status 1.
\<close>

theorem load_config_missing_section:
  assumes "files w config_file = Some text"
    and "json_loads pf text = Inr (JObj kvs)"
    and "\<exists>s \<in> set required_sections. s \<notin> fst ` set kvs"
  shows "\<exists>s e. find (\<lambda>s. s \<notin> fst ` set kvs) required_sections = Some s \<and>
           e = ExceptionF ''Error loading configuration: ''
                 (ValueError (''Missing required configuration section: '' @ s)) \<and>
           load_config pf config_file w = (Inl e, w) \<and>
           init pf config_file w = (Inl e, w) \<and>
           (config_file = ''config.json'' \<longrightarrow>
              main pf w = (1, w\<lparr>stdout := stdout w @ [LineExn ''Error: '' e]\<rparr>))"
proof -
  from assms(3) obtain s where s: "find (\<lambda>s. s \<notin> fst ` set kvs) required_sections = Some s"
    by (cases "find (\<lambda>s. s \<notin> fst ` set kvs) required_sections")
       (auto simp: find_None_iff)
  let ?e = "ExceptionF ''Error loading configuration: ''
              (ValueError (''Missing required configuration section: '' @ s))"
  have l: "load_config pf config_file w = (Inl ?e, w)"
    using assms(1,2) s
    by (simp add: load_config_def load_config_body_def try_except_def andthen_def
          eval_expr_def raise_exn_def check_sections_obj)
  then have i: "init pf config_file w = (Inl ?e, w)"
    by (simp add: init_def andthen_def)
  from main_init_fails have
    "config_file = ''config.json'' \<longrightarrow>
       main pf w = (1, w\<lparr>stdout := stdout w @ [LineExn ''Error: '' ?e]\<rparr>)"
    using i by blast
  with s l i show ?thesis by blast
qed

theorem load_config_missing_section_witness:
  "files example_world ''config.json'' = Some ''cfg'' \<and>
   json_loads (platform_of two_section_config example_remote) ''cfg''
     = Inr two_section_config \<and>
   find (\<lambda>s. s \<notin> {''aws'', ''application''}) required_sections = Some ''index'' \<and>
   main (platform_of two_section_config example_remote) example_world =
     (1, example_world\<lparr>stdout :=
           [LineExn ''Error: ''
              (ExceptionF ''Error loading configuration: ''
                 (ValueError ''Missing required configuration section: index''))]\<rparr>)"
proof -
  let ?kvs = "[(''aws'', JObj [(''region'', JStr ''us-east-1'')]), (''application'', JObj [])]"
  let ?pf = "platform_of two_section_config example_remote"
  have h1: "files example_world ''config.json'' = Some ''cfg''"
    by (simp add: example_world_def)
  have h2: "json_loads ?pf ''cfg'' = Inr (JObj ?kvs)"
    by (simp add: platform_of_def two_section_config_def)
  have h3: "\<exists>s \<in> set required_sections. s \<notin> fst ` set ?kvs"
    by (simp add: required_sections_def)
  have f: "find (\<lambda>s. s \<notin> fst ` set ?kvs) required_sections = Some ''index''"
    by (simp add: required_sections_def)
  from load_config_missing_section [OF h1 h2 h3] f h1 h2
  show ?thesis by (simp add: example_world_def two_section_config_def)
qed

text \<open>
  A document that is no key-value document may have no sections to look for: on
  \<^verbatim>\<open>null\<close>, a boolean or a number the first \<^verbatim>\<open>in\<close> test raises, and the handler
  wraps that \<^verbatim>\<open>TypeError\<close>.
\<close>

lemma load_config_scalar_document:
  assumes "files w config_file = Some text"
    and "json_loads pf text = Inr cfg"
    and "cfg = JNull \<or> cfg \<in> range JBool \<or> cfg \<in> range JInt \<or> cfg \<in> range JFloat"
  shows "load_config pf config_file w =
           (Inl (ExceptionF ''Error loading configuration: '' TypeError), w)"
  using assms
  by (auto simp: load_config_def load_config_body_def try_except_def andthen_def
        eval_expr_def raise_exn_def required_sections_def after_def)

section \<open>Deployment\<close>

lemma create_application_returns:
  assumes "getitem (config self) ''application'' = Inr app_config"
    and "application_params app_config = Inr p"
    and "qbusiness self (calls w) (Request CreateApplication p) = Inr r"
    and "getitem r ''applicationId'' = Inr a"
  shows "create_application self w =
           (Inr a, w\<lparr>stdout := stdout w @ [Line ''Creating Amazon Q Business application...'',
                                           LineVal ''Application created with ID: '' a],
                     calls := calls w @ [Request CreateApplication p]\<rparr>)"
  using assms by (simp add: create_application_def andthen_def basic_defs)

lemma create_index_returns:
  assumes "getitem (config self) ''index'' = Inr index_config"
    and "index_params index_config a = Inr p"
    and "qbusiness self (calls w) (Request CreateIndex p) = Inr r"
    and "getitem r ''indexId'' = Inr i"
  shows "create_index self a w =
           (Inr i, w\<lparr>stdout := stdout w @ [Line ''Creating index...'',
                                           LineVal ''Index created with ID: '' i],
                     calls := calls w @ [Request CreateIndex p]\<rparr>)"
  using assms by (simp add: create_index_def andthen_def basic_defs)

lemma create_data_source_returns:
  assumes "getitem (config self) ''dataSource'' = Inr ds_config"
    and "data_source_params ds_config a i = Inr p"
    and "qbusiness self (calls w) (Request CreateDataSource p) = Inr r"
    and "getitem r ''dataSourceId'' = Inr d"
  shows "create_data_source self a i w =
           (Inr d, w\<lparr>stdout := stdout w @ [Line ''Creating S3 data source...'',
                                           LineVal ''Data source created with ID: '' d],
                     calls := calls w @ [Request CreateDataSource p]\<rparr>)"
  using assms by (simp add: create_data_source_def andthen_def basic_defs)

lemma create_data_source_raises:
  assumes "getitem (config self) ''dataSource'' = Inr ds_config"
    and "data_source_params ds_config a i = Inr p"
    and "qbusiness self (calls w) (Request CreateDataSource p) = Inl e"
  shows "create_data_source self a i w =
           (Inl e, w\<lparr>stdout := stdout w @ [Line ''Creating S3 data source...''],
                     calls := calls w @ [Request CreateDataSource p]\<rparr>)"
  using assms by (simp add: create_data_source_def andthen_def basic_defs)

lemma start_data_source_sync_returns:
  assumes "qbusiness self (calls w) (Request StartDataSourceSyncJob (sync_params a i d)) = Inr r"
    and "getitem r ''executionId'' = Inr x"
  shows "start_data_source_sync self a i d w =
           (Inr x, w\<lparr>stdout := stdout w @ [Line ''Starting data source synchronization...'',
                                           LineVal ''Sync job started with execution ID: '' x],
                     calls := calls w @ [Request StartDataSourceSyncJob (sync_params a i d)]\<rparr>)"
  using assms by (simp add: start_data_source_sync_def andthen_def basic_defs)

lemma deploy_valid:
  assumes "collect_errors (config self) = Inr []"
  shows "deploy self w =
           try_except (provision self)
             (\<lambda>e. andthen (print (LineExn ''Deployment failed: '' e)) (\<lambda>_. raise_exn e))
             (w\<lparr>stdout := stdout w @
                  [Line ''Starting Amazon Q Business deployment...'',
                   Line (replicate 50 CHR ''=''),
                   Line ''Configuration validation passed'']\<rparr>)"
  using assms by (simp add: deploy_def andthen_def print_def validate_config_eq)

lemma deploy_invalid:
  assumes "collect_errors (config self) = Inr es" and "es \<noteq> []"
  shows "fst (deploy self w) =
           Inl (ValueError ''Configuration validation failed. Please fix the errors and try again.'')
         \<and> calls (snd (deploy self w)) = calls w"
  using assms by (simp add: deploy_def andthen_def print_def raise_exn_def validate_config_eq)

lemma deploy_unreadable:
  assumes "collect_errors (config self) = Inl e"
  shows "fst (deploy self w) = Inl e \<and> calls (snd (deploy self w)) = calls w"
  using assms by (simp add: deploy_def andthen_def print_def raise_exn_def validate_config_eq)

lemma provision_returns:
  assumes "getitem (config self) ''application'' = Inr app_config"
    and "application_params app_config = Inr p1"
    and "qbusiness self (calls w) (Request CreateApplication p1) = Inr r1"
    and "getitem r1 ''applicationId'' = Inr a"
    and "getitem (config self) ''index'' = Inr index_config"
    and "index_params index_config a = Inr p2"
    and "qbusiness self (calls w @ [Request CreateApplication p1]) (Request CreateIndex p2)
         = Inr r2"
    and "getitem r2 ''indexId'' = Inr i"
    and "getitem (config self) ''dataSource'' = Inr ds_config"
    and "data_source_params ds_config a i = Inr p3"
    and "qbusiness self (calls w @ [Request CreateApplication p1, Request CreateIndex p2])
           (Request CreateDataSource p3) = Inr r3"
    and "getitem r3 ''dataSourceId'' = Inr d"
    and "qbusiness self
           (calls w @ [Request CreateApplication p1, Request CreateIndex p2,
                       Request CreateDataSource p3])
           (Request StartDataSourceSyncJob (sync_params a i d)) = Inr r4"
    and "getitem r4 ''executionId'' = Inr x"
  shows "fst (provision self w) = Inr (resources_of a i d x) \<and>
         calls (snd (provision self w)) =
           calls w @ [Request CreateApplication p1, Request CreateIndex p2,
                      Request CreateDataSource p3,
                      Request StartDataSourceSyncJob (sync_params a i d)]"
proof -
  let ?c1 = "Request CreateApplication p1" and ?c2 = "Request CreateIndex p2"
    and ?c3 = "Request CreateDataSource p3"
    and ?c4 = "Request StartDataSourceSyncJob (sync_params a i d)"
  let ?o1 = "[Line ''Creating Amazon Q Business application...'',
              LineVal ''Application created with ID: '' a]"
  let ?o2 = "?o1 @ [Line ''Creating index...'', LineVal ''Index created with ID: '' i]"
  let ?o3 = "?o2 @ [Line ''Creating S3 data source...'',
                    LineVal ''Data source created with ID: '' d]"
  let ?o4 = "?o3 @ [Line ''Starting data source synchronization...'',
                    LineVal ''Sync job started with execution ID: '' x]"
  let ?w1 = "w\<lparr>stdout := stdout w @ ?o1, calls := calls w @ [?c1]\<rparr>"
  let ?w2 = "w\<lparr>stdout := stdout w @ ?o2, calls := calls w @ [?c1, ?c2]\<rparr>"
  let ?w3 = "w\<lparr>stdout := stdout w @ ?o3, calls := calls w @ [?c1, ?c2, ?c3]\<rparr>"
  let ?w4 = "w\<lparr>stdout := stdout w @ ?o4, calls := calls w @ [?c1, ?c2, ?c3, ?c4]\<rparr>"
  have s1: "create_application self w = (Inr a, ?w1)"
    using create_application_returns [OF assms(1-4)] by simp
  have s2: "create_index self a ?w1 = (Inr i, ?w2)"
    using create_index_returns [OF assms(5,6) _ assms(8), of ?w1] assms(7) by simp
  have s3: "create_data_source self a i ?w2 = (Inr d, ?w3)"
    using create_data_source_returns [OF assms(9,10) _ assms(12), of ?w2] assms(11) by simp
  have s4: "start_data_source_sync self a i d ?w3 = (Inr x, ?w4)"
    using start_data_source_sync_returns [OF _ assms(14), of self ?w3 a i d] assms(13) by simp
  have "provision self w =
          andthen (create_index self a) (\<lambda>index_id.
          andthen (create_data_source self a index_id) (\<lambda>data_source_id.
          andthen (start_data_source_sync self a index_id data_source_id) (\<lambda>execution_id.
          andthen (print (Line (CHR 0x0A # replicate 50 CHR ''=''))) (\<lambda>_.
          andthen (print (Line ''Deployment completed successfully!'')) (\<lambda>_.
          andthen (print (Line ''Resources created:'')) (\<lambda>_.
          andthen (print_all (map (\<lambda>(key, val). LineVal (''  '' @ key @ '': '') val)
                     (resources_of a index_id data_source_id execution_id))) (\<lambda>_.
          ret (resources_of a index_id data_source_id execution_id)))))))) ?w1"
    unfolding provision_def by (subst andthen_def) (simp only: s1 prod.case sum.case)
  also have "\<dots> =
          andthen (create_data_source self a i) (\<lambda>data_source_id.
          andthen (start_data_source_sync self a i data_source_id) (\<lambda>execution_id.
          andthen (print (Line (CHR 0x0A # replicate 50 CHR ''=''))) (\<lambda>_.
          andthen (print (Line ''Deployment completed successfully!'')) (\<lambda>_.
          andthen (print (Line ''Resources created:'')) (\<lambda>_.
          andthen (print_all (map (\<lambda>(key, val). LineVal (''  '' @ key @ '': '') val)
                     (resources_of a i data_source_id execution_id))) (\<lambda>_.
          ret (resources_of a i data_source_id execution_id))))))) ?w2"
    by (subst andthen_def) (simp only: s2 prod.case sum.case)
  also have "\<dots> =
          andthen (start_data_source_sync self a i d) (\<lambda>execution_id.
          andthen (print (Line (CHR 0x0A # replicate 50 CHR ''=''))) (\<lambda>_.
          andthen (print (Line ''Deployment completed successfully!'')) (\<lambda>_.
          andthen (print (Line ''Resources created:'')) (\<lambda>_.
          andthen (print_all (map (\<lambda>(key, val). LineVal (''  '' @ key @ '': '') val)
                     (resources_of a i d execution_id))) (\<lambda>_.
          ret (resources_of a i d execution_id)))))) ?w3"
    by (subst andthen_def) (simp only: s3 prod.case sum.case)
  also have "\<dots> =
          andthen (print (Line (CHR 0x0A # replicate 50 CHR ''=''))) (\<lambda>_.
          andthen (print (Line ''Deployment completed successfully!'')) (\<lambda>_.
          andthen (print (Line ''Resources created:'')) (\<lambda>_.
          andthen (print_all (map (\<lambda>(key, val). LineVal (''  '' @ key @ '': '') val)
                     (resources_of a i d x))) (\<lambda>_.
          ret (resources_of a i d x))))) ?w4"
    by (subst andthen_def) (simp only: s4 prod.case sum.case)
  finally show ?thesis
    by (simp add: andthen_def print_def print_all_eq ret_def)
qed

lemma try_except_returns:
  assumes "fst (m w) = Inr v"
  shows "try_except m h w = m w"
  using assms by (cases "m w") (simp add: try_except_def)

lemma provision_third_raises:
  assumes "getitem (config self) ''application'' = Inr app_config"
    and "application_params app_config = Inr p1"
    and "qbusiness self (calls w) (Request CreateApplication p1) = Inr r1"
    and "getitem r1 ''applicationId'' = Inr a"
    and "getitem (config self) ''index'' = Inr index_config"
    and "index_params index_config a = Inr p2"
    and "qbusiness self (calls w @ [Request CreateApplication p1]) (Request CreateIndex p2)
         = Inr r2"
    and "getitem r2 ''indexId'' = Inr i"
    and "getitem (config self) ''dataSource'' = Inr ds_config"
    and "data_source_params ds_config a i = Inr p3"
    and "qbusiness self (calls w @ [Request CreateApplication p1, Request CreateIndex p2])
           (Request CreateDataSource p3) = Inl e"
  shows "fst (provision self w) = Inl e \<and>
         calls (snd (provision self w)) =
           calls w @ [Request CreateApplication p1, Request CreateIndex p2,
                      Request CreateDataSource p3]"
proof -
  let ?c1 = "Request CreateApplication p1" and ?c2 = "Request CreateIndex p2"
    and ?c3 = "Request CreateDataSource p3"
  let ?o1 = "[Line ''Creating Amazon Q Business application...'',
              LineVal ''Application created with ID: '' a]"
  let ?o2 = "?o1 @ [Line ''Creating index...'', LineVal ''Index created with ID: '' i]"
  let ?o3 = "?o2 @ [Line ''Creating S3 data source...'']"
  let ?w1 = "w\<lparr>stdout := stdout w @ ?o1, calls := calls w @ [?c1]\<rparr>"
  let ?w2 = "w\<lparr>stdout := stdout w @ ?o2, calls := calls w @ [?c1, ?c2]\<rparr>"
  let ?w3 = "w\<lparr>stdout := stdout w @ ?o3, calls := calls w @ [?c1, ?c2, ?c3]\<rparr>"
  have s1: "create_application self w = (Inr a, ?w1)"
    using create_application_returns [OF assms(1-4)] by simp
  have s2: "create_index self a ?w1 = (Inr i, ?w2)"
    using create_index_returns [OF assms(5,6) _ assms(8), of ?w1] assms(7) by simp
  have s3: "create_data_source self a i ?w2 = (Inl e, ?w3)"
    using create_data_source_raises [OF assms(9,10), of ?w2 e] assms(11) by simp
  have "provision self w =
          andthen (create_index self a) (\<lambda>index_id.
          andthen (create_data_source self a index_id) (\<lambda>data_source_id.
          andthen (start_data_source_sync self a index_id data_source_id) (\<lambda>execution_id.
          andthen (print (Line (CHR 0x0A # replicate 50 CHR ''=''))) (\<lambda>_.
          andthen (print (Line ''Deployment completed successfully!'')) (\<lambda>_.
          andthen (print (Line ''Resources created:'')) (\<lambda>_.
          andthen (print_all (map (\<lambda>(key, val). LineVal (''  '' @ key @ '': '') val)
                     (resources_of a index_id data_source_id execution_id))) (\<lambda>_.
          ret (resources_of a index_id data_source_id execution_id)))))))) ?w1"
    unfolding provision_def by (subst andthen_def) (simp only: s1 prod.case sum.case)
  also have "\<dots> =
          andthen (create_data_source self a i) (\<lambda>data_source_id.
          andthen (start_data_source_sync self a i data_source_id) (\<lambda>execution_id.
          andthen (print (Line (CHR 0x0A # replicate 50 CHR ''=''))) (\<lambda>_.
          andthen (print (Line ''Deployment completed successfully!'')) (\<lambda>_.
          andthen (print (Line ''Resources created:'')) (\<lambda>_.
          andthen (print_all (map (\<lambda>(key, val). LineVal (''  '' @ key @ '': '') val)
                     (resources_of a i data_source_id execution_id))) (\<lambda>_.
          ret (resources_of a i data_source_id execution_id))))))) ?w2"
    by (subst andthen_def) (simp only: s2 prod.case sum.case)
  also have "\<dots> = (Inl e, ?w3)"
    by (subst andthen_def) (simp only: s3 prod.case sum.case)
  finally show ?thesis by simp
qed

text \<open>
  Claim C1. In every run of \<open>deploy\<close> in which the four remote calls answer with the
  identifiers \<open>A1\<close>, \<open>I1\<close>, \<open>D1\<close>, \<open>E1\<close> in sequence, exactly four calls are
  issued, in the order create application, create index, create data source, start sync
  job; the first carries no identifier, the second carries \<open>applicationId = A1\<close>, the
  third \<open>applicationId = A1\<close> and \<open>indexId = I1\<close>, the fourth these two and
  \<open>dataSourceId = D1\<close> and nothing else; and \<open>deploy\<close> returns exactly the mapping of
  the four identifiers.
\<close>

theorem deploy_chain:
  assumes "collect_errors (config self) = Inr []"
    and "getitem (config self) ''application'' = Inr app_config"
    and "application_params app_config = Inr p1"
    and "qbusiness self (calls w) (Request CreateApplication p1) = Inr r1"
    and "getitem r1 ''applicationId'' = Inr A1"
    and "getitem (config self) ''index'' = Inr index_config"
    and "index_params index_config A1 = Inr p2"
    and "qbusiness self (calls w @ [Request CreateApplication p1]) (Request CreateIndex p2)
         = Inr r2"
    and "getitem r2 ''indexId'' = Inr I1"
    and "getitem (config self) ''dataSource'' = Inr ds_config"
    and "data_source_params ds_config A1 I1 = Inr p3"
    and "qbusiness self (calls w @ [Request CreateApplication p1, Request CreateIndex p2])
           (Request CreateDataSource p3) = Inr r3"
    and "getitem r3 ''dataSourceId'' = Inr D1"
    and "qbusiness self
           (calls w @ [Request CreateApplication p1, Request CreateIndex p2,
                       Request CreateDataSource p3])
           (Request StartDataSourceSyncJob
              [(''applicationId'', A1), (''indexId'', I1), (''dataSourceId'', D1)]) = Inr r4"
    and "getitem r4 ''executionId'' = Inr E1"
  shows "fst (deploy self w) =
           Inr [(''applicationId'', A1), (''indexId'', I1), (''dataSourceId'', D1),
                (''executionId'', E1)] \<and>
         calls (snd (deploy self w)) =
           calls w @
           [Request CreateApplication p1, Request CreateIndex p2, Request CreateDataSource p3,
            Request StartDataSourceSyncJob
              [(''applicationId'', A1), (''indexId'', I1), (''dataSourceId'', D1)]] \<and>
         map fst p1 =
           [''displayName'', ''description'', ''identityType'', ''iamIdentityProviderArn'',
            ''clientIdsForOIDC'', ''qAppsConfiguration'', ''personalizationConfiguration'',
            ''attachmentsConfiguration''] \<and>
         (\<exists>fields. p2 = (''applicationId'', A1) # fields \<and>
            map fst fields = [''displayName'', ''description'', ''type'',
              ''capacityConfiguration'', ''documentAttributeConfigurations'']) \<and>
         (\<exists>fields. p3 = (''applicationId'', A1) # (''indexId'', I1) # fields \<and>
            map fst fields = [''displayName'', ''description'', ''configuration'',
              ''syncSchedule'', ''roleArn''])"
proof -
  let ?w0 = "w\<lparr>stdout := stdout w @
                  [Line ''Starting Amazon Q Business deployment...'',
                   Line (replicate 50 CHR ''=''),
                   Line ''Configuration validation passed'']\<rparr>"
  have c0: "calls ?w0 = calls w" by simp
  have p: "fst (provision self ?w0) = Inr (resources_of A1 I1 D1 E1) \<and>
         calls (snd (provision self ?w0)) =
           calls ?w0 @ [Request CreateApplication p1, Request CreateIndex p2,
                      Request CreateDataSource p3,
                      Request StartDataSourceSyncJob (sync_params A1 I1 D1)]"
    using assms(2-15) unfolding c0 [symmetric] sync_params_def [symmetric]
    by (rule provision_returns)
  have "deploy self w = provision self ?w0"
    unfolding deploy_valid [OF assms(1)] using p by (intro try_except_returns) blast
  with p have "fst (deploy self w) = Inr (resources_of A1 I1 D1 E1) \<and>
         calls (snd (deploy self w)) =
           calls w @ [Request CreateApplication p1, Request CreateIndex p2,
                      Request CreateDataSource p3,
                      Request StartDataSourceSyncJob (sync_params A1 I1 D1)]"
    by simp
  with application_params_keys [OF assms(3)] index_params_keys [OF assms(7)]
    data_source_params_keys [OF assms(11)]
  show ?thesis by (simp add: resources_of_def sync_params_def)
qed

lemmas method_defs = deploy_def provision_def validate_config_def collect_errors_def
  create_application_def create_index_def create_data_source_def start_data_source_sync_def
  application_params_def index_params_def data_source_params_def sync_params_def
  resources_of_def init_def load_config_def load_config_body_def required_sections_def
  main_def main_body_def output_file_def

lemmas example_defs = example_self_def example_world_def platform_of_def

theorem deploy_chain_witness:
  "fst (deploy (example_self example_config) example_world) =
     Inr [(''applicationId'', JStr ''A1''), (''indexId'', JStr ''I1''),
          (''dataSourceId'', JStr ''D1''), (''executionId'', JStr ''E1'')] \<and>
   map (\<lambda>r. case r of Request opn params \<Rightarrow>
          (opn, filter (\<lambda>kv. fst kv \<in> {''applicationId'', ''indexId'', ''dataSourceId''}) params))
     (calls (snd (deploy (example_self example_config) example_world))) =
     [(CreateApplication, []),
      (CreateIndex, [(''applicationId'', JStr ''A1'')]),
      (CreateDataSource, [(''applicationId'', JStr ''A1''), (''indexId'', JStr ''I1'')]),
      (StartDataSourceSyncJob,
         [(''applicationId'', JStr ''A1''), (''indexId'', JStr ''I1''),
          (''dataSourceId'', JStr ''D1'')])]"
proof -
  let ?self = "example_self example_config"
  let ?ac = "projr (getitem (config ?self) ''application'')"
  let ?p1 = "projr (application_params ?ac)"
  let ?ic = "projr (getitem (config ?self) ''index'')"
  let ?p2 = "projr (index_params ?ic (JStr ''A1''))"
  let ?dc = "projr (getitem (config ?self) ''dataSource'')"
  let ?p3 = "projr (data_source_params ?dc (JStr ''A1'') (JStr ''I1''))"
  have h1: "collect_errors (config ?self) = Inr []"
    by (simp add: collect_errors_def example_self_def config_defs marker_defs after_def)
  have h2: "getitem (config ?self) ''application'' = Inr ?ac"
    by (simp add: example_self_def config_defs)
  have h3: "application_params ?ac = Inr ?p1"
    by (simp add: application_params_def example_self_def config_defs after_def)
  have h4: "qbusiness ?self (calls example_world) (Request CreateApplication ?p1)
            = Inr (JObj [(''applicationId'', JStr ''A1'')])"
    by (simp add: example_self_def)
  have h5: "getitem (JObj [(''applicationId'', JStr ''A1'')]) ''applicationId'' = Inr (JStr ''A1'')"
    by simp
  have h6: "getitem (config ?self) ''index'' = Inr ?ic"
    by (simp add: example_self_def config_defs)
  have h7: "index_params ?ic (JStr ''A1'') = Inr ?p2"
    by (simp add: index_params_def example_self_def config_defs after_def)
  have h8: "qbusiness ?self (calls example_world @ [Request CreateApplication ?p1])
              (Request CreateIndex ?p2) = Inr (JObj [(''indexId'', JStr ''I1'')])"
    by (simp add: example_self_def)
  have h9: "getitem (JObj [(''indexId'', JStr ''I1'')]) ''indexId'' = Inr (JStr ''I1'')"
    by simp
  have h10: "getitem (config ?self) ''dataSource'' = Inr ?dc"
    by (simp add: example_self_def config_defs)
  have h11: "data_source_params ?dc (JStr ''A1'') (JStr ''I1'') = Inr ?p3"
    by (simp add: data_source_params_def example_self_def config_defs after_def)
  have h12: "qbusiness ?self
               (calls example_world @ [Request CreateApplication ?p1, Request CreateIndex ?p2])
               (Request CreateDataSource ?p3) = Inr (JObj [(''dataSourceId'', JStr ''D1'')])"
    by (simp add: example_self_def)
  have h13: "getitem (JObj [(''dataSourceId'', JStr ''D1'')]) ''dataSourceId'' = Inr (JStr ''D1'')"
    by simp
  have h14: "qbusiness ?self
               (calls example_world @ [Request CreateApplication ?p1, Request CreateIndex ?p2,
                                       Request CreateDataSource ?p3])
               (Request StartDataSourceSyncJob
                  [(''applicationId'', JStr ''A1''), (''indexId'', JStr ''I1''),
                   (''dataSourceId'', JStr ''D1'')])
             = Inr (JObj [(''executionId'', JStr ''E1'')])"
    by (simp add: example_self_def)
  have h15: "getitem (JObj [(''executionId'', JStr ''E1'')]) ''executionId'' = Inr (JStr ''E1'')"
    by simp
  have k1: "filter (\<lambda>kv. fst kv \<in> {''applicationId'', ''indexId'', ''dataSourceId''}) ?p1 = []"
    by (simp add: application_params_def example_self_def config_defs after_def)
  have k2: "filter (\<lambda>kv. fst kv \<in> {''applicationId'', ''indexId'', ''dataSourceId''}) ?p2
            = [(''applicationId'', JStr ''A1'')]"
    by (simp add: index_params_def example_self_def config_defs after_def)
  have k3: "filter (\<lambda>kv. fst kv \<in> {''applicationId'', ''indexId'', ''dataSourceId''}) ?p3
            = [(''applicationId'', JStr ''A1''), (''indexId'', JStr ''I1'')]"
    by (simp add: data_source_params_def example_self_def config_defs after_def)
  have c: "calls example_world = []" by (simp add: example_world_def)
  from deploy_chain [OF h1 h2 h3 h4 h5 h6 h7 h8 h9 h10 h11 h12 h13 h14 h15]
  have "fst (deploy ?self example_world) =
           Inr [(''applicationId'', JStr ''A1''), (''indexId'', JStr ''I1''),
                (''dataSourceId'', JStr ''D1''), (''executionId'', JStr ''E1'')]"
    and "calls (snd (deploy ?self example_world)) =
           calls example_world @
           [Request CreateApplication ?p1, Request CreateIndex ?p2, Request CreateDataSource ?p3,
            Request StartDataSourceSyncJob
              [(''applicationId'', JStr ''A1''), (''indexId'', JStr ''I1''),
               (''dataSourceId'', JStr ''D1'')]]"
    by blast+
  then show ?thesis
    by (simp only: c k1 k2 k3 list.map append_Nil request.case simp_thms) simp
qed

text \<open>
  Claim C3 says that on every loaded configuration whose role contains the account
  marker \<open>validate_config\<close> returns \<open>False\<close> and reports the role's message. On a
  loaded configuration with such a role whose \<open>dataSource.configuration\<close> has no
  \<open>additionalProperties\<close>, the second check raises a \<^verbatim>\<open>KeyError\<close> after the first
  has recorded its message: nothing is printed and nothing is returned.
\<close>

theorem placeholder_role_raises_counterexample:
  "fst (load_config (platform_of no_properties_config example_remote) ''config.json''
          example_world) = Inr no_properties_config \<and>
   getpath no_properties_config [''dataSource'', ''roleArn'']
     = Inr (JStr ''arn:aws:iam::<YOUR-ACCOUNT>:role/QBusinessRole'') \<and>
   str_contains ''<YOUR-ACCOUNT>'' ''arn:aws:iam::<YOUR-ACCOUNT>:role/QBusinessRole'' \<and>
   validate_config (example_self no_properties_config) example_world
     = (Inl (KeyError ''additionalProperties''), example_world)"
  by (simp add: load_config_def load_config_body_def try_except_def andthen_def basic_defs
        example_defs required_sections_def after_def validate_config_eq collect_errors_def
        config_defs marker_defs)

text \<open>
  Claim C3, amended. For every configuration whose \<open>dataSource.roleArn\<close> is a string
  containing \<open><YOUR-ACCOUNT>\<close>, \<open>deploy\<close> raises before any remote call is issued;
  and when moreover the bucket name can be read and the identity-provider reference is
  a string, \<open>validate_config\<close> returns \<open>False\<close> with the role's message among the
  errors it prints, and \<open>deploy\<close> raises the validation failure.
\<close>

theorem placeholder_role_aborts:
  assumes "getpath (config self) [''dataSource'', ''roleArn''] = Inr (JStr r)"
    and "sublist account_marker r"
  shows "(\<exists>e. fst (deploy self w) = Inl e) \<and>
         calls (snd (deploy self w)) = calls w \<and>
         (\<forall>b i.
            getpath (config self)
              [''dataSource'', ''configuration'', ''additionalProperties'', ''bucketName'']
              = Inr b \<longrightarrow>
            getpath (config self) [''application'', ''iamIdentityProviderArn''] = Inr (JStr i)
            \<longrightarrow>
            fst (validate_config self w) = Inr False \<and>
            Line (''  - '' @ account_error) \<in> set (stdout (snd (validate_config self w))) \<and>
            fst (deploy self w) =
              Inl (ValueError
                ''Configuration validation failed. Please fix the errors and try again.''))"
proof -
  have t: "py_in account_marker (JStr r) = Inr True"
    using assms(2) by (simp add: str_contains_sublist)
  have readable: "fst (validate_config self w) = Inr False \<and>
            Line (''  - '' @ account_error) \<in> set (stdout (snd (validate_config self w))) \<and>
            fst (deploy self w) =
              Inl (ValueError
                ''Configuration validation failed. Please fix the errors and try again.'')"
    if b: "getpath (config self)
              [''dataSource'', ''configuration'', ''additionalProperties'', ''bucketName'']
              = Inr b"
      and i: "getpath (config self) [''application'', ''iamIdentityProviderArn''] = Inr (JStr i)"
    for b i
  proof -
    let ?es = "(if True then [account_error] else []) @
                (if b = JStr bucket_marker then [bucket_error] else []) @
                (if i = iam_marker then [iam_error] else []) @
                (if \<not> str_startswith i arn_prefix then [format_error] else [])"
    have es: "collect_errors (config self) = Inr ?es"
      by (rule collect_errors_readable [OF assms(1) t b i])
    have ne: "?es \<noteq> []" by simp
    from deploy_invalid [OF es ne] show ?thesis
      by (simp add: validate_config_eq es)
  qed
  have "(\<exists>e. fst (deploy self w) = Inl e) \<and> calls (snd (deploy self w)) = calls w"
  proof (cases "collect_errors (config self)")
    case (Inl e)
    from deploy_unreadable [OF this] show ?thesis by blast
  next
    case (Inr es)
    from collect_errors_Inr_readable [OF this] obtain role t' b i where
      r: "getpath (config self) [''dataSource'', ''roleArn''] = Inr role"
      and t': "py_in account_marker role = Inr t'"
      and b: "getpath (config self)
                [''dataSource'', ''configuration'', ''additionalProperties'', ''bucketName'']
              = Inr b"
      and i: "getpath (config self) [''application'', ''iamIdentityProviderArn''] = Inr (JStr i)"
      by blast
    from r assms(1) have "role = JStr r" by simp
    with t t' have "t' = True" by simp
    with collect_errors_readable [OF r t' b i] Inr have "es \<noteq> []" by auto
    from deploy_invalid [OF Inr this] show ?thesis by blast
  qed
  with readable show ?thesis by blast
qed

theorem placeholder_role_aborts_witness:
  "fst (deploy (example_self template_role_config) example_world) =
     Inl (ValueError ''Configuration validation failed. Please fix the errors and try again.'') \<and>
   calls (snd (deploy (example_self template_role_config) example_world)) = [] \<and>
   fst (validate_config (example_self template_role_config) example_world) = Inr False \<and>
   Line (''  - '' @ account_error)
     \<in> set (stdout (snd (validate_config (example_self template_role_config) example_world)))"
proof -
  let ?self = "example_self template_role_config"
  have h1: "getpath (config ?self) [''dataSource'', ''roleArn'']
            = Inr (JStr ''arn:aws:iam::<YOUR-ACCOUNT>:role/QBusinessRole'')"
    by (simp add: example_self_def config_defs after_def)
  have "str_contains account_marker ''arn:aws:iam::<YOUR-ACCOUNT>:role/QBusinessRole''"
    by (simp add: marker_defs)
  then have h2: "sublist account_marker ''arn:aws:iam::<YOUR-ACCOUNT>:role/QBusinessRole''"
    by (simp only: str_contains_sublist)
  have h3: "getpath (config ?self)
              [''dataSource'', ''configuration'', ''additionalProperties'', ''bucketName'']
            = Inr (JStr ''reg-docs'')"
    by (simp add: example_self_def config_defs after_def)
  have h4: "getpath (config ?self) [''application'', ''iamIdentityProviderArn'']
            = Inr (JStr ''arn:aws:sso:::instance/ssoins-1234'')"
    by (simp add: example_self_def config_defs after_def)
  have c: "calls example_world = []" by (simp add: example_world_def)
  from placeholder_role_aborts [OF h1 h2, of example_world] h3 h4 c
  show ?thesis by simp
qed

section \<open>Runs of main\<close>

lemma try_except_reraises:
  assumes "fst (m w) = Inl e"
  shows "try_except m (\<lambda>e. andthen (print (LineExn p e)) (\<lambda>_. raise_exn e)) w =
           (Inl e, (snd (m w))\<lparr>stdout := stdout (snd (m w)) @ [LineExn p e]\<rparr>)"
  using assms by (cases "m w") (simp add: try_except_def andthen_def print_def raise_exn_def)

text \<open>
  Claim C2. In a run of \<open>main\<close> in which the first two remote calls succeed and the
  third, the creation of the data source, raises, the calls issued are these three and
  no other (the sync job is never started), no file is written, and the process prints
  the error and exits with status 1.
\<close>

theorem main_third_call_raises:
  assumes "init pf ''config.json'' w = (Inr self, w1)"
    and "collect_errors (config self) = Inr []"
    and "getitem (config self) ''application'' = Inr app_config"
    and "application_params app_config = Inr p1"
    and "qbusiness self (calls w) (Request CreateApplication p1) = Inr r1"
    and "getitem r1 ''applicationId'' = Inr A1"
    and "getitem (config self) ''index'' = Inr index_config"
    and "index_params index_config A1 = Inr p2"
    and "qbusiness self (calls w @ [Request CreateApplication p1]) (Request CreateIndex p2)
         = Inr r2"
    and "getitem r2 ''indexId'' = Inr I1"
    and "getitem (config self) ''dataSource'' = Inr ds_config"
    and "data_source_params ds_config A1 I1 = Inr p3"
    and "qbusiness self (calls w @ [Request CreateApplication p1, Request CreateIndex p2])
           (Request CreateDataSource p3) = Inl e"
  shows "fst (main pf w) = 1 \<and>
         files (snd (main pf w)) = files w \<and>
         calls (snd (main pf w)) =
           calls w @ [Request CreateApplication p1, Request CreateIndex p2,
                      Request CreateDataSource p3] \<and>
         last (stdout (snd (main pf w))) = LineExn ''Error: '' e"
proof -
  from init_calls [of pf "''config.json''" w] init_files [of pf "''config.json''" w] assms(1)
  have w1: "calls w1 = calls w" "files w1 = files w" by simp_all
  let ?w0 = "w1\<lparr>stdout := stdout w1 @
                  [Line ''Starting Amazon Q Business deployment...'',
                   Line (replicate 50 CHR ''=''),
                   Line ''Configuration validation passed'']\<rparr>"
  have c0: "calls ?w0 = calls w" using w1 by simp
  have p: "fst (provision self ?w0) = Inl e \<and>
         calls (snd (provision self ?w0)) =
           calls ?w0 @ [Request CreateApplication p1, Request CreateIndex p2,
                      Request CreateDataSource p3]"
    using assms(3-13) unfolding c0 [symmetric] by (rule provision_third_raises)
  let ?w2 = "(snd (provision self ?w0))\<lparr>stdout := stdout (snd (provision self ?w0)) @
               [LineExn ''Deployment failed: '' e]\<rparr>"
  have d: "deploy self w1 = (Inl e, ?w2)"
    unfolding deploy_valid [OF assms(2)] using p by (intro try_except_reraises) blast
  have f: "files ?w2 = files w"
    using provision_files [of self ?w0] w1 by simp
  have c: "calls ?w2 = calls w @ [Request CreateApplication p1, Request CreateIndex p2,
                      Request CreateDataSource p3]"
    using p c0 by simp
  from main_deploy_fails [OF assms(1) d] f c show ?thesis by simp
qed

theorem main_third_call_raises_witness:
  "fst (main (platform_of example_config refusing_remote) example_world) = 1 \<and>
   files (snd (main (platform_of example_config refusing_remote) example_world))
     = files example_world \<and>
   map (\<lambda>r. case r of Request opn params \<Rightarrow> opn)
     (calls (snd (main (platform_of example_config refusing_remote) example_world)))
     = [CreateApplication, CreateIndex, CreateDataSource] \<and>
   last (stdout (snd (main (platform_of example_config refusing_remote) example_world)))
     = LineExn ''Error: '' (ClientError ''AccessDeniedException'')"
proof -
  let ?pf = "platform_of example_config refusing_remote"
  let ?self = "\<lparr>config = example_config, qbusiness = refusing_remote\<rparr>"
  let ?w1 = "example_world\<lparr>stdout :=
               [Line ''Configuration loaded successfully from config.json'']\<rparr>"
  let ?ac = "projr (getitem (config ?self) ''application'')"
  let ?p1 = "projr (application_params ?ac)"
  let ?ic = "projr (getitem (config ?self) ''index'')"
  let ?p2 = "projr (index_params ?ic (JStr ''A1''))"
  let ?dc = "projr (getitem (config ?self) ''dataSource'')"
  let ?p3 = "projr (data_source_params ?dc (JStr ''A1'') (JStr ''I1''))"
  have h0: "init ?pf ''config.json'' example_world = (Inr ?self, ?w1)"
    by (simp add: init_def load_config_def load_config_body_def try_except_def andthen_def
          basic_defs example_defs required_sections_def config_defs after_def)
  have h1: "collect_errors (config ?self) = Inr []"
    by (simp add: collect_errors_def config_defs marker_defs after_def)
  have h2: "getitem (config ?self) ''application'' = Inr ?ac"
    by (simp add: config_defs)
  have h3: "application_params ?ac = Inr ?p1"
    by (simp add: application_params_def config_defs after_def)
  have h4: "qbusiness ?self (calls example_world) (Request CreateApplication ?p1)
            = Inr (JObj [(''applicationId'', JStr ''A1'')])"
    by simp
  have h5: "getitem (JObj [(''applicationId'', JStr ''A1'')]) ''applicationId'' = Inr (JStr ''A1'')"
    by simp
  have h6: "getitem (config ?self) ''index'' = Inr ?ic"
    by (simp add: config_defs)
  have h7: "index_params ?ic (JStr ''A1'') = Inr ?p2"
    by (simp add: index_params_def config_defs after_def)
  have h8: "qbusiness ?self (calls example_world @ [Request CreateApplication ?p1])
              (Request CreateIndex ?p2) = Inr (JObj [(''indexId'', JStr ''I1'')])"
    by simp
  have h9: "getitem (JObj [(''indexId'', JStr ''I1'')]) ''indexId'' = Inr (JStr ''I1'')"
    by simp
  have h10: "getitem (config ?self) ''dataSource'' = Inr ?dc"
    by (simp add: config_defs)
  have h11: "data_source_params ?dc (JStr ''A1'') (JStr ''I1'') = Inr ?p3"
    by (simp add: data_source_params_def config_defs after_def)
  have h12: "qbusiness ?self
               (calls example_world @ [Request CreateApplication ?p1, Request CreateIndex ?p2])
               (Request CreateDataSource ?p3) = Inl (ClientError ''AccessDeniedException'')"
    by simp
  from main_third_call_raises [OF h0 h1 h2 h3 h4 h5 h6 h7 h8 h9 h10 h11 h12]
  show ?thesis by (simp add: example_world_def)
qed

text \<open>
  Claim C9. When the constructor and \<open>deploy\<close> succeed, \<open>main\<close> exits with status 0
  and the files are those it started with except that \<open>deployment_output.json\<close> holds
  the serialised mapping of the four identifiers and nothing else, whatever that path
  held before.
\<close>

theorem main_writes_output:
  assumes "init pf ''config.json'' w = (Inr self, w1)"
    and "deploy self w1 = (Inr res, w2)"
  shows "fst (main pf w) = 0 \<and>
         files (snd (main pf w)) =
           (files w)(''deployment_output.json'' \<mapsto> json_dumps pf (JObj res)) \<and>
         (\<exists>a i d e. res = [(''applicationId'', a), (''indexId'', i), (''dataSourceId'', d),
                           (''executionId'', e)])"
proof -
  from init_files [of pf "''config.json''" w] assms(1) have "files w1 = files w" by simp
  moreover from deploy_files [of self w1] assms(2) have "files w2 = files w1" by simp
  ultimately have f: "files w2 = files w" by simp
  from deploy_shape [OF assms(2)] have
    "\<exists>a i d e. res = [(''applicationId'', a), (''indexId'', i), (''dataSourceId'', d),
                      (''executionId'', e)]"
    by (simp add: resources_of_def)
  with main_succeeds [OF assms] f show ?thesis by (simp add: output_file_def)
qed

theorem main_writes_output_witness:
  "files example_world ''deployment_output.json'' = Some ''stale'' \<and>
   fst (main (platform_of example_config example_remote) example_world) = 0 \<and>
   files (snd (main (platform_of example_config example_remote) example_world)) =
     (files example_world)(''deployment_output.json'' \<mapsto>
        example_dumps (JObj [(''applicationId'', JStr ''A1''), (''indexId'', JStr ''I1''),
                             (''dataSourceId'', JStr ''D1''), (''executionId'', JStr ''E1'')]))"
proof -
  let ?pf = "platform_of example_config example_remote"
  let ?self = "\<lparr>config = example_config, qbusiness = example_remote\<rparr>"
  let ?w1 = "example_world\<lparr>stdout :=
               [Line ''Configuration loaded successfully from config.json'']\<rparr>"
  let ?res = "[(''applicationId'', JStr ''A1''), (''indexId'', JStr ''I1''),
               (''dataSourceId'', JStr ''D1''), (''executionId'', JStr ''E1'')]"
  have h0: "init ?pf ''config.json'' example_world = (Inr ?self, ?w1)"
    by (simp add: init_def load_config_def load_config_body_def try_except_def andthen_def
          basic_defs example_defs required_sections_def config_defs after_def)
  have "fst (deploy ?self ?w1) = Inr ?res"
    by (simp add: method_defs try_except_def andthen_def basic_defs example_world_def
          config_defs marker_defs after_def)
  then have h1: "deploy ?self ?w1 = (Inr ?res, snd (deploy ?self ?w1))"
    by (metis prod.collapse)
  have s: "files example_world ''deployment_output.json'' = Some ''stale''"
    by (simp add: example_world_def)
  have d: "json_dumps ?pf = example_dumps" by (simp add: platform_of_def)
  from main_writes_output [OF h0 h1] s d show ?thesis by simp
qed

end
